theory Spec2Isabelle
  imports Complex_Main "HOL-Library.Word"
begin

section \<open>The glTF loader of the framework (\<open>framework/gltf_loader.cpp\<close>)\<close>

text \<open>
  The loader turns a parsed glTF document (a \<open>tinygltf::Model\<close>) into a scene graph.
  The embedding follows the C++ text function by function. Exceptions and reads the
  language leaves undefined are values of the type \<open>failure\<close>; a function that can fail
  returns \<open>failure + 'a\<close>, and a loop that can run forever returns an \<open>option\<close> around it,
  \<open>None\<close> standing for "does not return".
\<close>

subsection \<open>Failures and checked lookups\<close>

datatype failure =
    OutOfRange            \<comment> \<open>\<open>std::out_of_range\<close>, thrown by \<open>vector::at\<close> and \<open>map::at\<close>\<close>
  | UndefinedBehaviour    \<comment> \<open>an unchecked access outside the object (\<open>operator[]\<close>, iterator arithmetic), a division by zero\<close>
  | RuntimeError          \<comment> \<open>any other exception\<close>

type_synonym byte = "8 word"

text \<open>
  \<open>size_t\<close> is taken to be 64 bits wide, \<open>int\<close> and \<open>uint32_t\<close> 32 bits. Converting a
  signed value to an unsigned type reduces it modulo the width.
\<close>

definition size_t_of_int :: "int \<Rightarrow> nat" where
  "size_t_of_int i = nat (i mod 2 ^ 64)"

definition u32_of_int :: "int \<Rightarrow> nat" where
  "u32_of_int i = nat (i mod 2 ^ 32)"

text \<open>\<open>std::vector::at\<close>: the element at an unsigned position, or \<open>std::out_of_range\<close>.\<close>

definition vec_at :: "'a list \<Rightarrow> nat \<Rightarrow> failure + 'a" where
  "vec_at xs i = (if i < length xs then Inr (xs ! i) else Inl OutOfRange)"

text \<open>\<open>std::map::at\<close> on a map given by its entries: the value of the key, or \<open>std::out_of_range\<close>.\<close>

definition map_at :: "('k \<times> 'v) list \<Rightarrow> 'k \<Rightarrow> failure + 'v" where
  "map_at m k = (case map_of m k of None \<Rightarrow> Inl OutOfRange | Some v \<Rightarrow> Inr v)"

subsection \<open>The document, as far as the loader reads it\<close>

text \<open>
  The classes of \<open>tinygltf\<close> are records of the fields the loader reads. The numeric
  values of the \<open>TINYGLTF_*\<close> macros are those of the glTF 2.0 format.
\<close>

record Accessor =
  acc_bufferView :: int
  acc_byteOffset :: nat
  acc_normalized :: bool
  acc_componentType :: int
  acc_count :: nat
  acc_type :: int

record BufferView =
  bv_buffer :: int
  bv_byteOffset :: nat
  bv_byteStride :: nat

record Buffer =
  buf_data :: "byte list"

record gltf_Sampler =
  sampler_name :: string
  minFilter :: int
  magFilter :: int
  wrapS :: int
  wrapT :: int
  wrapR :: int

record gltf_Image =
  image_name :: string

record gltf_Texture =
  texture_name :: string
  texture_sampler :: int
  texture_source :: int

text \<open>
  A \<open>tinygltf::Parameter\<close> is read through the methods \<open>TextureIndex()\<close>, \<open>ColorFactor()\<close>
  (an array of four numbers) and \<open>Factor()\<close> and through its public fields; the record
  holds what the methods return and the fields. Numbers of the document are reals here: the loader stores them and computes
  nothing from them.
\<close>

record Parameter =
  TextureIndex :: int
  ColorFactor :: "real \<times> real \<times> real \<times> real"
  Factor :: real
  number_array :: "real list"
  number_value :: real
  string_value :: string
  bool_value :: bool

text \<open>The two \<open>ParameterMap\<close>s of a material are lists of entries in the order of iteration.\<close>

record gltf_Material =
  material_name :: string
  material_values :: "(string \<times> Parameter) list"
  additionalValues :: "(string \<times> Parameter) list"

record Primitive =
  prim_attributes :: "(string \<times> int) list"
  prim_indices :: int
  prim_material :: int

record gltf_Mesh =
  mesh_name :: string
  primitives :: "Primitive list"

record gltf_Camera =
  camera_name :: string
  camera_type :: string
  aspectRatio :: real
  yfov :: real
  znear :: real
  zfar :: real

record gltf_Node =
  node_name :: string
  node_mesh :: int
  node_camera :: int
  node_children :: "int list"

record gltf_Scene =
  gltf_scene_name :: string
  gltf_scene_nodes :: "int list"

record Model =
  accessors :: "Accessor list"
  bufferViews :: "BufferView list"
  buffers :: "Buffer list"
  samplers :: "gltf_Sampler list"
  images :: "gltf_Image list"
  textures :: "gltf_Texture list"
  materials :: "gltf_Material list"
  meshes :: "gltf_Mesh list"
  cameras :: "gltf_Camera list"
  nodes :: "gltf_Node list"
  scenes :: "gltf_Scene list"

definition TINYGLTF_COMPONENT_TYPE_BYTE :: int where "TINYGLTF_COMPONENT_TYPE_BYTE = 5120"
definition TINYGLTF_COMPONENT_TYPE_UNSIGNED_BYTE :: int where "TINYGLTF_COMPONENT_TYPE_UNSIGNED_BYTE = 5121"
definition TINYGLTF_COMPONENT_TYPE_SHORT :: int where "TINYGLTF_COMPONENT_TYPE_SHORT = 5122"
definition TINYGLTF_COMPONENT_TYPE_UNSIGNED_SHORT :: int where "TINYGLTF_COMPONENT_TYPE_UNSIGNED_SHORT = 5123"
definition TINYGLTF_COMPONENT_TYPE_INT :: int where "TINYGLTF_COMPONENT_TYPE_INT = 5124"
definition TINYGLTF_COMPONENT_TYPE_UNSIGNED_INT :: int where "TINYGLTF_COMPONENT_TYPE_UNSIGNED_INT = 5125"
definition TINYGLTF_COMPONENT_TYPE_FLOAT :: int where "TINYGLTF_COMPONENT_TYPE_FLOAT = 5126"

definition TINYGLTF_TYPE_VEC2 :: int where "TINYGLTF_TYPE_VEC2 = 2"
definition TINYGLTF_TYPE_VEC3 :: int where "TINYGLTF_TYPE_VEC3 = 3"
definition TINYGLTF_TYPE_VEC4 :: int where "TINYGLTF_TYPE_VEC4 = 4"
definition TINYGLTF_TYPE_SCALAR :: int where "TINYGLTF_TYPE_SCALAR = 65"

subsection \<open>Format Resolver: \<open>get_attribute_format\<close>\<close>

datatype VkFormat =
    VK_FORMAT_UNDEFINED
  | VK_FORMAT_R8_SINT | VK_FORMAT_R8G8_SINT | VK_FORMAT_R8G8B8_SINT | VK_FORMAT_R8G8B8A8_SINT
  | VK_FORMAT_R8_UINT | VK_FORMAT_R8G8_UINT | VK_FORMAT_R8G8B8_UINT | VK_FORMAT_R8G8B8A8_UINT
  | VK_FORMAT_R8_UNORM | VK_FORMAT_R8G8_UNORM | VK_FORMAT_R8G8B8_UNORM | VK_FORMAT_R8G8B8A8_UNORM
  | VK_FORMAT_R16_UINT | VK_FORMAT_R16G16_UINT | VK_FORMAT_R16G16B16_UINT | VK_FORMAT_R16G16B16A16_UINT
  | VK_FORMAT_R16_UNORM | VK_FORMAT_R16G16_UNORM | VK_FORMAT_R16G16B16_UNORM | VK_FORMAT_R16G16B16A16_UNORM
  | VK_FORMAT_R32_SINT | VK_FORMAT_R32G32_SINT | VK_FORMAT_R32G32B32_SINT | VK_FORMAT_R32G32B32A32_SINT
  | VK_FORMAT_R32_UINT | VK_FORMAT_R32G32_UINT | VK_FORMAT_R32G32B32_UINT | VK_FORMAT_R32G32B32A32_UINT
  | VK_FORMAT_R32_SFLOAT | VK_FORMAT_R32G32_SFLOAT | VK_FORMAT_R32G32B32_SFLOAT | VK_FORMAT_R32G32B32A32_SFLOAT

text \<open>The lookup tables of the function, one definition per \<open>static const std::map\<close>.\<close>

definition byte_format :: "(int \<times> VkFormat) list" where
  "byte_format = [(TINYGLTF_TYPE_SCALAR, VK_FORMAT_R8_SINT), (TINYGLTF_TYPE_VEC2, VK_FORMAT_R8G8_SINT),
     (TINYGLTF_TYPE_VEC3, VK_FORMAT_R8G8B8_SINT), (TINYGLTF_TYPE_VEC4, VK_FORMAT_R8G8B8A8_SINT)]"

definition unsigned_byte_format :: "(int \<times> VkFormat) list" where
  "unsigned_byte_format = [(TINYGLTF_TYPE_SCALAR, VK_FORMAT_R8_UINT), (TINYGLTF_TYPE_VEC2, VK_FORMAT_R8G8_UINT),
     (TINYGLTF_TYPE_VEC3, VK_FORMAT_R8G8B8_UINT), (TINYGLTF_TYPE_VEC4, VK_FORMAT_R8G8B8A8_UINT)]"

definition unsigned_byte_format_normalize :: "(int \<times> VkFormat) list" where
  "unsigned_byte_format_normalize = [(TINYGLTF_TYPE_SCALAR, VK_FORMAT_R8_UNORM), (TINYGLTF_TYPE_VEC2, VK_FORMAT_R8G8_UNORM),
     (TINYGLTF_TYPE_VEC3, VK_FORMAT_R8G8B8_UNORM), (TINYGLTF_TYPE_VEC4, VK_FORMAT_R8G8B8A8_UNORM)]"

text \<open>The table of the \<open>SHORT\<close> case lists the 8-bit signed formats, as the source does.\<close>

definition short_format :: "(int \<times> VkFormat) list" where
  "short_format = [(TINYGLTF_TYPE_SCALAR, VK_FORMAT_R8_SINT), (TINYGLTF_TYPE_VEC2, VK_FORMAT_R8G8_SINT),
     (TINYGLTF_TYPE_VEC3, VK_FORMAT_R8G8B8_SINT), (TINYGLTF_TYPE_VEC4, VK_FORMAT_R8G8B8A8_SINT)]"

definition unsigned_short_format :: "(int \<times> VkFormat) list" where
  "unsigned_short_format = [(TINYGLTF_TYPE_SCALAR, VK_FORMAT_R16_UINT), (TINYGLTF_TYPE_VEC2, VK_FORMAT_R16G16_UINT),
     (TINYGLTF_TYPE_VEC3, VK_FORMAT_R16G16B16_UINT), (TINYGLTF_TYPE_VEC4, VK_FORMAT_R16G16B16A16_UINT)]"

definition unsigned_short_format_normalize :: "(int \<times> VkFormat) list" where
  "unsigned_short_format_normalize = [(TINYGLTF_TYPE_SCALAR, VK_FORMAT_R16_UNORM), (TINYGLTF_TYPE_VEC2, VK_FORMAT_R16G16_UNORM),
     (TINYGLTF_TYPE_VEC3, VK_FORMAT_R16G16B16_UNORM), (TINYGLTF_TYPE_VEC4, VK_FORMAT_R16G16B16A16_UNORM)]"

definition int_format :: "(int \<times> VkFormat) list" where
  "int_format = [(TINYGLTF_TYPE_SCALAR, VK_FORMAT_R32_SINT), (TINYGLTF_TYPE_VEC2, VK_FORMAT_R32G32_SINT),
     (TINYGLTF_TYPE_VEC3, VK_FORMAT_R32G32B32_SINT), (TINYGLTF_TYPE_VEC4, VK_FORMAT_R32G32B32A32_SINT)]"

definition unsigned_int_format :: "(int \<times> VkFormat) list" where
  "unsigned_int_format = [(TINYGLTF_TYPE_SCALAR, VK_FORMAT_R32_UINT), (TINYGLTF_TYPE_VEC2, VK_FORMAT_R32G32_UINT),
     (TINYGLTF_TYPE_VEC3, VK_FORMAT_R32G32B32_UINT), (TINYGLTF_TYPE_VEC4, VK_FORMAT_R32G32B32A32_UINT)]"

definition float_format :: "(int \<times> VkFormat) list" where
  "float_format = [(TINYGLTF_TYPE_SCALAR, VK_FORMAT_R32_SFLOAT), (TINYGLTF_TYPE_VEC2, VK_FORMAT_R32G32_SFLOAT),
     (TINYGLTF_TYPE_VEC3, VK_FORMAT_R32G32B32_SFLOAT), (TINYGLTF_TYPE_VEC4, VK_FORMAT_R32G32B32A32_SFLOAT)]"

text \<open>
  The \<open>switch\<close> over the component type of one accessor. \<open>mapped_format.at\<close> throws on an
  arity the table does not list; the \<open>default\<close> label gives \<open>VK_FORMAT_UNDEFINED\<close>.
\<close>

definition accessor_format :: "Accessor \<Rightarrow> failure + VkFormat" where
  "accessor_format accessor =
    (let c = acc_componentType accessor in
     if c = TINYGLTF_COMPONENT_TYPE_BYTE then map_at byte_format (acc_type accessor)
     else if c = TINYGLTF_COMPONENT_TYPE_UNSIGNED_BYTE then
       (if acc_normalized accessor then map_at unsigned_byte_format_normalize (acc_type accessor)
        else map_at unsigned_byte_format (acc_type accessor))
     else if c = TINYGLTF_COMPONENT_TYPE_SHORT then map_at short_format (acc_type accessor)
     else if c = TINYGLTF_COMPONENT_TYPE_UNSIGNED_SHORT then
       (if acc_normalized accessor then map_at unsigned_short_format_normalize (acc_type accessor)
        else map_at unsigned_short_format (acc_type accessor))
     else if c = TINYGLTF_COMPONENT_TYPE_INT then map_at int_format (acc_type accessor)
     else if c = TINYGLTF_COMPONENT_TYPE_UNSIGNED_INT then map_at unsigned_int_format (acc_type accessor)
     else if c = TINYGLTF_COMPONENT_TYPE_FLOAT then map_at float_format (acc_type accessor)
     else Inr VK_FORMAT_UNDEFINED)"

definition get_attribute_format :: "Accessor list \<Rightarrow> nat \<Rightarrow> failure + VkFormat" where
  "get_attribute_format accessors_v accessorId =
    (case vec_at accessors_v accessorId of
       Inl e \<Rightarrow> Inl e
     | Inr accessor \<Rightarrow> accessor_format accessor)"

subsection \<open>Attribute Extractor: \<open>get_attribute_data\<close>, \<open>get_attribute_size\<close>, \<open>get_attribute_stride\<close>\<close>

text \<open>
  The constructor \<open>std::vector<uint8_t>{first, last}\<close> over iterators of \<open>buffer.data\<close>.
  The source does not compare the two positions with the size of the vector: a range that
  is not inside the data is a read outside the object.
\<close>

definition iterator_range :: "byte list \<Rightarrow> nat \<Rightarrow> nat \<Rightarrow> failure + byte list" where
  "iterator_range bytes startByte endByte =
    (if startByte \<le> endByte \<and> endByte \<le> length bytes
     then Inr (take (endByte - startByte) (drop startByte bytes))
     else Inl UndefinedBehaviour)"

text \<open>
  \<open>Accessor::ByteStride\<close> belongs to \<open>tinygltf\<close>; the functions take it as the parameter
  \<open>ByteStride\<close>. Its \<open>int\<close> result is converted to \<open>size_t\<close>, and the arithmetic on
  \<open>size_t\<close> wraps.
\<close>

definition get_attribute_data ::
  "(Accessor \<Rightarrow> BufferView \<Rightarrow> int) \<Rightarrow> Model \<Rightarrow> nat \<Rightarrow> failure + byte list" where
  "get_attribute_data ByteStride model accessorId =
    (case vec_at (accessors model) accessorId of
       Inl e \<Rightarrow> Inl e
     | Inr accessor \<Rightarrow>
    (case vec_at (bufferViews model) (size_t_of_int (acc_bufferView accessor)) of
       Inl e \<Rightarrow> Inl e
     | Inr bufferView \<Rightarrow>
    (case vec_at (buffers model) (size_t_of_int (bv_buffer bufferView)) of
       Inl e \<Rightarrow> Inl e
     | Inr buffer \<Rightarrow>
       (let stride = size_t_of_int (ByteStride accessor bufferView);
            startByte = (acc_byteOffset accessor + bv_byteOffset bufferView) mod 2 ^ 64;
            endByte = (startByte + (acc_count accessor * stride) mod 2 ^ 64) mod 2 ^ 64
        in iterator_range (buf_data buffer) startByte endByte))))"

definition get_attribute_size :: "Model \<Rightarrow> nat \<Rightarrow> failure + nat" where
  "get_attribute_size model accessorId =
    (case vec_at (accessors model) accessorId of
       Inl e \<Rightarrow> Inl e
     | Inr accessor \<Rightarrow> Inr (acc_count accessor))"

definition get_attribute_stride ::
  "(Accessor \<Rightarrow> BufferView \<Rightarrow> int) \<Rightarrow> Model \<Rightarrow> nat \<Rightarrow> failure + nat" where
  "get_attribute_stride ByteStride model accessorId =
    (case vec_at (accessors model) accessorId of
       Inl e \<Rightarrow> Inl e
     | Inr accessor \<Rightarrow>
    (case vec_at (bufferViews model) (size_t_of_int (acc_bufferView accessor)) of
       Inl e \<Rightarrow> Inl e
     | Inr bufferView \<Rightarrow> Inr (size_t_of_int (ByteStride accessor bufferView))))"

subsection \<open>Index Width Normalizer: \<open>convert_data\<close>\<close>

text \<open>
  The loop of \<open>convert_data\<close>. Both counters are \<open>uint32_t\<close> and wrap; \<open>std::copy\<close> moves
  \<open>srcStride\<close> bytes and checks neither range. Nothing in the loop bounds the number of
  rounds, so the function is partial: \<open>None\<close> is a loop that does not end.
\<close>

partial_function (option) convert_loop ::
  "byte list \<Rightarrow> nat \<Rightarrow> nat \<Rightarrow> nat \<Rightarrow> nat \<Rightarrow> byte list \<Rightarrow> (failure + byte list) option" where
  "convert_loop srcData srcStride dstStride idxSrc idxDst result =
    (if idxSrc < length srcData \<and> idxDst < length result then
       (if idxSrc + srcStride \<le> length srcData \<and> idxDst + srcStride \<le> length result then
          convert_loop srcData srcStride dstStride
            ((idxSrc + srcStride) mod 2 ^ 32) ((idxDst + dstStride) mod 2 ^ 32)
            (take idxDst result @ take srcStride (drop idxSrc srcData) @ drop (idxDst + srcStride) result)
        else Some (Inl UndefinedBehaviour))
     else Some (Inr result))"

text \<open>
  \<open>to_u32\<close> is a helper of the framework outside this file; \<open>convert_data\<close> takes it as a
  parameter. The element count and the size of the result are \<open>uint32_t\<close> values.
\<close>

declare convert_loop.simps [code]

definition convert_data ::
  "(nat \<Rightarrow> failure + nat) \<Rightarrow> byte list \<Rightarrow> nat \<Rightarrow> nat \<Rightarrow> (failure + byte list) option" where
  "convert_data to_u32 srcData srcStride dstStride =
    (case to_u32 (length srcData) of
       Inl e \<Rightarrow> Some (Inl e)
     | Inr n \<Rightarrow>
       if srcStride = 0 then Some (Inl UndefinedBehaviour)
       else
         (let elem_count = n div srcStride;
              result = replicate ((elem_count * dstStride) mod 2 ^ 32) (0 :: byte)
          in convert_loop srcData srcStride dstStride 0 0 result))"

subsection \<open>Primitive Materializer: \<open>parse_primitive\<close>\<close>

text \<open>
  A loop that may not end makes its caller partial as well: \<open>'a outcome\<close> is \<open>None\<close> when
  the call does not return, \<open>Some (Inl e)\<close> when it fails with \<open>e\<close>, \<open>Some (Inr v)\<close> when it
  returns \<open>v\<close>.
\<close>

type_synonym 'a outcome = "(failure + 'a) option"

datatype log_level = LOGI | LOGW | LOGE

type_synonym log = "(log_level \<times> string) list"

datatype VkBufferUsage = VK_BUFFER_USAGE_VERTEX_BUFFER_BIT | VK_BUFFER_USAGE_INDEX_BUFFER_BIT

datatype VkIndexType = VK_INDEX_TYPE_UINT16 | VK_INDEX_TYPE_UINT32

text \<open>
  A \<open>core::Buffer\<close> is created with a size and a usage and filled by \<open>update(0, data)\<close>;
  the device behind it is outside the loader.
\<close>

record core_Buffer =
  buffer_size :: nat
  buffer_usage :: VkBufferUsage
  buffer_data :: "byte list"

definition new_Buffer :: "VkBufferUsage \<Rightarrow> byte list \<Rightarrow> core_Buffer" where
  "new_Buffer usage bytes = \<lparr>buffer_size = length bytes, buffer_usage = usage, buffer_data = bytes\<rparr>"

record VertexAttribute =
  attr_format :: VkFormat
  attr_stride :: nat

record SubMesh =
  vertices_count :: nat
  vertex_indices :: nat
  index_type :: VkIndexType
  vertex_buffers :: "string \<rightharpoonup> core_Buffer"
  vertex_attributes :: "string \<rightharpoonup> VertexAttribute"
  index_buffer :: "core_Buffer option"
  submesh_material :: "nat option"

text \<open>
  Modelled from the spec: the class \<open>sg::SubMesh\<close> is declared outside this file. A new
  primitive has vertex count and index count zero, no vertex buffer, no attribute, no
  index buffer and no material; its index width is the zero value of \<open>VkIndexType\<close>.
\<close>

definition new_SubMesh :: SubMesh where
  "new_SubMesh = \<lparr>vertices_count = 0, vertex_indices = 0, index_type = VK_INDEX_TYPE_UINT16,
     vertex_buffers = Map.empty, vertex_attributes = Map.empty, index_buffer = None,
     submesh_material = None\<rparr>"

text \<open>\<open>::tolower\<close> in the "C" locale: the 26 capital letters of ASCII move, nothing else does.\<close>

definition isupper :: "char \<Rightarrow> bool" where
  "isupper c = (c \<in> set ''ABCDEFGHIJKLMNOPQRSTUVWXYZ'')"

definition tolower :: "char \<Rightarrow> char" where
  "tolower c =
    (case map_of (zip ''ABCDEFGHIJKLMNOPQRSTUVWXYZ'' ''abcdefghijklmnopqrstuvwxyz'') c of
       Some l \<Rightarrow> l
     | None \<Rightarrow> c)"

text \<open>
  The loop over \<open>gltf_primitive.attributes\<close>, a \<open>std::map\<close> given by its entries in the
  order of iteration. \<open>vertex_buffers.insert\<close> keeps an entry that is already there;
  \<open>set_attribute\<close> stores the descriptor under the name.
\<close>

fun parse_attributes ::
  "(nat \<Rightarrow> failure + nat) \<Rightarrow> (Accessor \<Rightarrow> BufferView \<Rightarrow> int) \<Rightarrow> Model \<Rightarrow>
   (string \<times> int) list \<Rightarrow> SubMesh \<Rightarrow> failure + SubMesh" where
  "parse_attributes to_u32 ByteStride model [] submesh = Inr submesh"
| "parse_attributes to_u32 ByteStride model (attribute # rest) submesh =
    (let attrib_name = map tolower (fst attribute) in
     case get_attribute_data ByteStride model (u32_of_int (snd attribute)) of
       Inl e \<Rightarrow> Inl e
     | Inr vertex_data \<Rightarrow>
    (case (if attrib_name = ''position''
           then (case vec_at (accessors model) (size_t_of_int (snd attribute)) of
                   Inl e \<Rightarrow> Inl e
                 | Inr accessor \<Rightarrow>
                     (case to_u32 (acc_count accessor) of
                        Inl e \<Rightarrow> Inl e
                      | Inr n \<Rightarrow> Inr (submesh\<lparr>vertices_count := n\<rparr>)))
           else Inr submesh) of
       Inl e \<Rightarrow> Inl e
     | Inr submesh1 \<Rightarrow>
       (let buffer = new_Buffer VK_BUFFER_USAGE_VERTEX_BUFFER_BIT vertex_data;
            submesh2 = (case vertex_buffers submesh1 attrib_name of
                          None \<Rightarrow> submesh1\<lparr>vertex_buffers := (vertex_buffers submesh1)(attrib_name \<mapsto> buffer)\<rparr>
                        | Some _ \<Rightarrow> submesh1)
        in case get_attribute_format (accessors model) (u32_of_int (snd attribute)) of
             Inl e \<Rightarrow> Inl e
           | Inr format \<Rightarrow>
          (case get_attribute_stride ByteStride model (u32_of_int (snd attribute)) of
             Inl e \<Rightarrow> Inl e
           | Inr s \<Rightarrow>
          (case to_u32 s of
             Inl e \<Rightarrow> Inl e
           | Inr stride \<Rightarrow>
               parse_attributes to_u32 ByteStride model rest
                 (submesh2\<lparr>vertex_attributes := (vertex_attributes submesh2)
                    (attrib_name \<mapsto> \<lparr>attr_format = format, attr_stride = stride\<rparr>)\<rparr>))))))"

text \<open>
  The \<open>switch\<close> over the format of the index accessor: the index bytes, the index width
  and the log after it. The \<open>default\<close> label logs and leaves the \<open>switch\<close>.
\<close>

definition index_switch ::
  "(nat \<Rightarrow> failure + nat) \<Rightarrow> VkFormat \<Rightarrow> byte list \<Rightarrow> SubMesh \<Rightarrow> log \<Rightarrow> (byte list \<times> SubMesh \<times> log) outcome" where
  "index_switch to_u32 format index_data submesh lg =
    (if format = VK_FORMAT_R8_UINT then
       (case convert_data to_u32 index_data 1 2 of
          None \<Rightarrow> None
        | Some (Inl e) \<Rightarrow> Some (Inl e)
        | Some (Inr converted) \<Rightarrow> Some (Inr (converted, submesh\<lparr>index_type := VK_INDEX_TYPE_UINT16\<rparr>, lg)))
     else if format = VK_FORMAT_R16_UINT then
       Some (Inr (index_data, submesh\<lparr>index_type := VK_INDEX_TYPE_UINT16\<rparr>, lg))
     else if format = VK_FORMAT_R32_UINT then
       Some (Inr (index_data, submesh\<lparr>index_type := VK_INDEX_TYPE_UINT32\<rparr>, lg))
     else
       Some (Inr (index_data, submesh, lg @ [(LOGE, ''gltf primitive has invalid format type'')])))"

definition parse_indices ::
  "(nat \<Rightarrow> failure + nat) \<Rightarrow> (Accessor \<Rightarrow> BufferView \<Rightarrow> int) \<Rightarrow> Model \<Rightarrow>
   int \<Rightarrow> SubMesh \<Rightarrow> log \<Rightarrow> (SubMesh \<times> log) outcome" where
  "parse_indices to_u32 ByteStride model indices submesh lg =
    (case get_attribute_size model (u32_of_int indices) of
       Inl e \<Rightarrow> Some (Inl e)
     | Inr count \<Rightarrow>
    (case to_u32 count of
       Inl e \<Rightarrow> Some (Inl e)
     | Inr n \<Rightarrow>
    (case get_attribute_format (accessors model) (u32_of_int indices) of
       Inl e \<Rightarrow> Some (Inl e)
     | Inr format \<Rightarrow>
    (case get_attribute_data ByteStride model (u32_of_int indices) of
       Inl e \<Rightarrow> Some (Inl e)
     | Inr index_data \<Rightarrow>
    (case index_switch to_u32 format index_data (submesh\<lparr>vertex_indices := n\<rparr>) lg of
       None \<Rightarrow> None
     | Some (Inl e) \<Rightarrow> Some (Inl e)
     | Some (Inr (index_data1, submesh1, lg1)) \<Rightarrow>
         Some (Inr (submesh1\<lparr>index_buffer := Some (new_Buffer VK_BUFFER_USAGE_INDEX_BUFFER_BIT index_data1)\<rparr>, lg1)))))))"

definition parse_primitive ::
  "(nat \<Rightarrow> failure + nat) \<Rightarrow> (Accessor \<Rightarrow> BufferView \<Rightarrow> int) \<Rightarrow> Model \<Rightarrow>
   Primitive \<Rightarrow> log \<Rightarrow> (SubMesh \<times> log) outcome" where
  "parse_primitive to_u32 ByteStride model gltf_primitive lg =
    (case parse_attributes to_u32 ByteStride model (prim_attributes gltf_primitive) new_SubMesh of
       Inl e \<Rightarrow> Some (Inl e)
     | Inr submesh \<Rightarrow>
       if prim_indices gltf_primitive \<ge> 0 then
         parse_indices to_u32 ByteStride model (prim_indices gltf_primitive) submesh lg
       else
         (case map_at (prim_attributes gltf_primitive) ''POSITION'' of
            Inl e \<Rightarrow> Some (Inl e)
          | Inr accessorId \<Rightarrow>
         (case get_attribute_size model (u32_of_int accessorId) of
            Inl e \<Rightarrow> Some (Inl e)
          | Inr count \<Rightarrow>
         (case to_u32 count of
            Inl e \<Rightarrow> Some (Inl e)
          | Inr n \<Rightarrow> Some (Inr (submesh\<lparr>vertices_count := n\<rparr>, lg))))))"

text \<open>The domain of the Format Resolver: seven component types and four arities.\<close>

definition component_types :: "int list" where
  "component_types = [TINYGLTF_COMPONENT_TYPE_BYTE, TINYGLTF_COMPONENT_TYPE_UNSIGNED_BYTE,
     TINYGLTF_COMPONENT_TYPE_SHORT, TINYGLTF_COMPONENT_TYPE_UNSIGNED_SHORT,
     TINYGLTF_COMPONENT_TYPE_INT, TINYGLTF_COMPONENT_TYPE_UNSIGNED_INT,
     TINYGLTF_COMPONENT_TYPE_FLOAT]"

definition element_types :: "int list" where
  "element_types = [TINYGLTF_TYPE_SCALAR, TINYGLTF_TYPE_VEC2, TINYGLTF_TYPE_VEC3, TINYGLTF_TYPE_VEC4]"

text \<open>
  The widening as the specification words it: every 8-bit element becomes a 16-bit
  little-endian element whose upper byte is zero, in the order of the input.
\<close>

definition widen_le16 :: "byte list \<Rightarrow> byte list" where
  "widen_le16 bytes = concat (map (\<lambda>b. [b, 0]) bytes)"

subsection \<open>The scene under construction\<close>

datatype VkFilter = VK_FILTER_NEAREST | VK_FILTER_LINEAR

datatype VkSamplerMipmapMode = VK_SAMPLER_MIPMAP_MODE_NEAREST | VK_SAMPLER_MIPMAP_MODE_LINEAR

datatype VkSamplerAddressMode =
    VK_SAMPLER_ADDRESS_MODE_REPEAT
  | VK_SAMPLER_ADDRESS_MODE_CLAMP_TO_EDGE
  | VK_SAMPLER_ADDRESS_MODE_MIRRORED_REPEAT

record Sampler =
  sg_sampler_name :: string
  sg_magFilter :: VkFilter
  sg_minFilter :: VkFilter
  sg_mipmapMode :: VkSamplerMipmapMode
  sg_addressModeU :: VkSamplerAddressMode
  sg_addressModeV :: VkSamplerAddressMode
  sg_addressModeW :: VkSamplerAddressMode

record Image =
  sg_image_name :: string

text \<open>
  A pointer to a component of the scene is the position of the component in the scene's
  list of that type. The default sampler and the default material are created before the
  loop that refers to them and stored right after it, so that their positions are the
  numbers of parsed samplers and parsed materials.
\<close>

record Texture =
  sg_texture_name :: string
  sg_texture_image :: "nat option"
  sg_texture_sampler :: "nat option"

text \<open>
  The factor fields of a material are \<open>None\<close> as long as \<open>parse_material\<close> has not
  assigned them: they keep the value the class \<open>sg::PBRMaterial\<close>, declared outside this
  file, gives them.
\<close>

datatype AlphaMode = Opaque | Mask | Blend

record PBRMaterial =
  sg_material_name :: string
  sg_material_textures :: "string \<rightharpoonup> nat"
  base_color_factor :: "(real \<times> real \<times> real \<times> real) option"
  metallic_factor :: "real option"
  roughness_factor :: "real option"
  emissive :: "(real \<times> real \<times> real) option"
  alpha_mode :: "AlphaMode option"
  alpha_cutoff :: "real option"
  double_sided :: "bool option"

record Mesh =
  sg_mesh_name :: string
  sg_mesh_submeshes :: "nat list"
  sg_mesh_nodes :: "nat list"

record Camera =
  sg_camera_name :: string
  aspect_ratio :: real
  field_of_view :: real
  near_plane :: real
  far_plane :: real
  sg_camera_node :: "nat option"

text \<open>
  An \<open>sg::Node\<close> is an object with an identity: the nodes live in a store, a list of node
  objects, and a reference to a node is its position in the store. The transform that
  \<open>parse_node\<close> copies from the document is numeric data no claim reads; it is left out.
\<close>

record Node =
  sg_node_name :: string
  parent :: "nat option"
  children :: "nat list"
  sg_node_mesh :: "nat option"
  sg_node_camera :: "nat option"

text \<open>
  The state of \<open>load_scene\<close>: the scene (its name, its components by type, the nodes it
  owns and its root children), the store of node objects, and the log.
\<close>

record Loader =
  scene_name :: string
  c_Sampler :: "Sampler list"
  c_Image :: "Image list"
  c_Texture :: "Texture list"
  c_PBRMaterial :: "PBRMaterial list"
  c_SubMesh :: "SubMesh list"
  c_Mesh :: "Mesh list"
  c_Camera :: "Camera list"
  scene_nodes :: "nat list"
  scene_children :: "nat list"
  node_store :: "Node list"
  messages :: log

definition new_Scene :: Loader where
  "new_Scene = \<lparr>scene_name = ''gltf_scene'', c_Sampler = [], c_Image = [], c_Texture = [],
     c_PBRMaterial = [], c_SubMesh = [], c_Mesh = [], c_Camera = [], scene_nodes = [],
     scene_children = [], node_store = [], messages = []\<rparr>"

text \<open>\<open>get_components<T>()\<close>: the pointers to the \<open>n\<close> components of a type, in their order.\<close>

definition get_components :: "'a list \<Rightarrow> nat list" where
  "get_components cs = [0 ..< length cs]"

subsection \<open>Samplers\<close>

definition TINYGLTF_TEXTURE_FILTER_NEAREST :: int where "TINYGLTF_TEXTURE_FILTER_NEAREST = 9728"
definition TINYGLTF_TEXTURE_FILTER_LINEAR :: int where "TINYGLTF_TEXTURE_FILTER_LINEAR = 9729"
definition TINYGLTF_TEXTURE_FILTER_NEAREST_MIPMAP_NEAREST :: int where "TINYGLTF_TEXTURE_FILTER_NEAREST_MIPMAP_NEAREST = 9984"
definition TINYGLTF_TEXTURE_FILTER_LINEAR_MIPMAP_NEAREST :: int where "TINYGLTF_TEXTURE_FILTER_LINEAR_MIPMAP_NEAREST = 9985"
definition TINYGLTF_TEXTURE_FILTER_NEAREST_MIPMAP_LINEAR :: int where "TINYGLTF_TEXTURE_FILTER_NEAREST_MIPMAP_LINEAR = 9986"
definition TINYGLTF_TEXTURE_FILTER_LINEAR_MIPMAP_LINEAR :: int where "TINYGLTF_TEXTURE_FILTER_LINEAR_MIPMAP_LINEAR = 9987"
definition TINYGLTF_TEXTURE_WRAP_REPEAT :: int where "TINYGLTF_TEXTURE_WRAP_REPEAT = 10497"
definition TINYGLTF_TEXTURE_WRAP_CLAMP_TO_EDGE :: int where "TINYGLTF_TEXTURE_WRAP_CLAMP_TO_EDGE = 33071"
definition TINYGLTF_TEXTURE_WRAP_MIRRORED_REPEAT :: int where "TINYGLTF_TEXTURE_WRAP_MIRRORED_REPEAT = 33648"

definition find_min_filter :: "int \<Rightarrow> VkFilter" where
  "find_min_filter min_filter =
    (if min_filter = TINYGLTF_TEXTURE_FILTER_NEAREST
        \<or> min_filter = TINYGLTF_TEXTURE_FILTER_NEAREST_MIPMAP_NEAREST
        \<or> min_filter = TINYGLTF_TEXTURE_FILTER_NEAREST_MIPMAP_LINEAR then VK_FILTER_NEAREST
     else if min_filter = TINYGLTF_TEXTURE_FILTER_LINEAR
        \<or> min_filter = TINYGLTF_TEXTURE_FILTER_LINEAR_MIPMAP_NEAREST
        \<or> min_filter = TINYGLTF_TEXTURE_FILTER_LINEAR_MIPMAP_LINEAR then VK_FILTER_LINEAR
     else VK_FILTER_LINEAR)"

definition find_mipmap_mode :: "int \<Rightarrow> VkSamplerMipmapMode" where
  "find_mipmap_mode min_filter =
    (if min_filter = TINYGLTF_TEXTURE_FILTER_NEAREST_MIPMAP_NEAREST
        \<or> min_filter = TINYGLTF_TEXTURE_FILTER_LINEAR_MIPMAP_NEAREST then VK_SAMPLER_MIPMAP_MODE_NEAREST
     else if min_filter = TINYGLTF_TEXTURE_FILTER_NEAREST_MIPMAP_LINEAR
        \<or> min_filter = TINYGLTF_TEXTURE_FILTER_LINEAR_MIPMAP_LINEAR then VK_SAMPLER_MIPMAP_MODE_LINEAR
     else VK_SAMPLER_MIPMAP_MODE_LINEAR)"

definition find_mag_filter :: "int \<Rightarrow> VkFilter" where
  "find_mag_filter mag_filter =
    (if mag_filter = TINYGLTF_TEXTURE_FILTER_NEAREST then VK_FILTER_NEAREST
     else if mag_filter = TINYGLTF_TEXTURE_FILTER_LINEAR then VK_FILTER_LINEAR
     else VK_FILTER_LINEAR)"

definition find_wrap_mode :: "int \<Rightarrow> VkSamplerAddressMode" where
  "find_wrap_mode wrap =
    (if wrap = TINYGLTF_TEXTURE_WRAP_REPEAT then VK_SAMPLER_ADDRESS_MODE_REPEAT
     else if wrap = TINYGLTF_TEXTURE_WRAP_CLAMP_TO_EDGE then VK_SAMPLER_ADDRESS_MODE_CLAMP_TO_EDGE
     else if wrap = TINYGLTF_TEXTURE_WRAP_MIRRORED_REPEAT then VK_SAMPLER_ADDRESS_MODE_MIRRORED_REPEAT
     else VK_SAMPLER_ADDRESS_MODE_REPEAT)"

definition parse_sampler :: "gltf_Sampler \<Rightarrow> Sampler" where
  "parse_sampler gltf_sampler =
    \<lparr>sg_sampler_name = sampler_name gltf_sampler,
     sg_magFilter = find_mag_filter (magFilter gltf_sampler),
     sg_minFilter = find_min_filter (minFilter gltf_sampler),
     sg_mipmapMode = find_mipmap_mode (minFilter gltf_sampler),
     sg_addressModeU = find_wrap_mode (wrapS gltf_sampler),
     sg_addressModeV = find_wrap_mode (wrapT gltf_sampler),
     sg_addressModeW = find_wrap_mode (wrapR gltf_sampler)\<rparr>"

text \<open>
  A default-constructed \<open>tinygltf::Sampler\<close> has an empty name; \<open>create_default_sampler\<close>
  assigns the five other fields.
\<close>

definition create_default_sampler :: Sampler where
  "create_default_sampler =
    parse_sampler \<lparr>sampler_name = [], minFilter = TINYGLTF_TEXTURE_FILTER_LINEAR,
      magFilter = TINYGLTF_TEXTURE_FILTER_LINEAR, wrapS = TINYGLTF_TEXTURE_WRAP_REPEAT,
      wrapT = TINYGLTF_TEXTURE_WRAP_REPEAT, wrapR = TINYGLTF_TEXTURE_WRAP_REPEAT\<rparr>"

text \<open>
  Decoding an image and uploading it to the device are the work of collaborators outside
  the loader; the model keeps one image component per image of the document, in the
  order of the document.
\<close>

definition parse_image :: "gltf_Image \<Rightarrow> Image" where
  "parse_image gltf_image = \<lparr>sg_image_name = image_name gltf_image\<rparr>"

subsection \<open>Textures\<close>

definition parse_texture :: "gltf_Texture \<Rightarrow> Texture" where
  "parse_texture gltf_texture =
    \<lparr>sg_texture_name = texture_name gltf_texture, sg_texture_image = None, sg_texture_sampler = None\<rparr>"

text \<open>
  One round of the loop over \<open>model.textures\<close>. The comparison
  \<open>gltf_texture.sampler < samplers.size()\<close> converts the \<open>int\<close> to \<open>size_t\<close>.
\<close>

definition load_texture :: "nat list \<Rightarrow> nat list \<Rightarrow> nat \<Rightarrow> gltf_Texture \<Rightarrow> Loader \<Rightarrow> failure + Loader" where
  "load_texture images_v samplers_v default_sampler gltf_texture st =
    (case vec_at images_v (size_t_of_int (texture_source gltf_texture)) of
       Inl e \<Rightarrow> Inl e
     | Inr image_p \<Rightarrow>
       (let texture = (parse_texture gltf_texture)\<lparr>sg_texture_image := Some image_p\<rparr> in
        if 0 \<le> texture_sampler gltf_texture
           \<and> size_t_of_int (texture_sampler gltf_texture) < length samplers_v
        then
          (case vec_at samplers_v (size_t_of_int (texture_sampler gltf_texture)) of
             Inl e \<Rightarrow> Inl e
           | Inr sampler \<Rightarrow>
               Inr (st\<lparr>c_Texture := c_Texture st @ [texture\<lparr>sg_texture_sampler := Some sampler\<rparr>]\<rparr>))
        else
          Inr (st\<lparr>messages := messages st @
                    [(LOGW, ''Sampler not found for texture '' @ texture_name gltf_texture
                            @ '', possible GLTF error'')],
                  c_Texture := c_Texture st @ [texture\<lparr>sg_texture_sampler := Some default_sampler\<rparr>]\<rparr>)))"

fun load_textures :: "nat list \<Rightarrow> nat list \<Rightarrow> nat \<Rightarrow> gltf_Texture list \<Rightarrow> Loader \<Rightarrow> failure + Loader" where
  "load_textures images_v samplers_v default_sampler [] st = Inr st"
| "load_textures images_v samplers_v default_sampler (gltf_texture # rest) st =
    (case load_texture images_v samplers_v default_sampler gltf_texture st of
       Inl e \<Rightarrow> Inl e
     | Inr st1 \<Rightarrow> load_textures images_v samplers_v default_sampler rest st1)"

subsection \<open>Materials\<close>

text \<open>\<open>std::string::find\<close>: the first position at which the pattern occurs, \<open>None\<close> for \<open>npos\<close>.\<close>

fun string_find :: "string \<Rightarrow> string \<Rightarrow> nat option" where
  "string_find [] pat = (if pat = [] then Some 0 else None)"
| "string_find (c # cs) pat =
    (if take (length pat) (c # cs) = pat then Some 0
     else map_option Suc (string_find cs pat))"

text \<open>
  Modelled from the spec: \<open>to_snake_case\<close> is a helper of the framework declared outside
  this file. It converts a key to the canonical lowercase-with-separators form: every
  capital letter starts a new word, which the separator \<open>_\<close> introduces, and is written
  in lower case; every other character stays.
\<close>

fun to_snake_case :: "string \<Rightarrow> string" where
  "to_snake_case [] = []"
| "to_snake_case (c # cs) =
    (if isupper c then CHR ''_'' # tolower c # to_snake_case cs else c # to_snake_case cs)"

definition new_PBRMaterial :: "string \<Rightarrow> PBRMaterial" where
  "new_PBRMaterial n = \<lparr>sg_material_name = n, sg_material_textures = Map.empty,
     base_color_factor = None, metallic_factor = None, roughness_factor = None,
     emissive = None, alpha_mode = None, alpha_cutoff = None, double_sided = None\<rparr>"

text \<open>
  The two loops of \<open>parse_material\<close>. The entry \<open>emissiveFactor\<close> is read at the positions
  0, 1 and 2 of its number array, a vector, without a check.
\<close>

fun parse_material_values :: "(string \<times> Parameter) list \<Rightarrow> PBRMaterial \<Rightarrow> PBRMaterial" where
  "parse_material_values [] material = material"
| "parse_material_values (gltf_value # rest) material =
    (if fst gltf_value = ''baseColorFactor'' then
       parse_material_values rest
         (material\<lparr>base_color_factor :=
            Some (ColorFactor (snd gltf_value))\<rparr>)
     else if fst gltf_value = ''metallicFactor'' then
       parse_material_values rest (material\<lparr>metallic_factor := Some (Factor (snd gltf_value))\<rparr>)
     else if fst gltf_value = ''roughnessFactor'' then
       parse_material_values rest (material\<lparr>roughness_factor := Some (Factor (snd gltf_value))\<rparr>)
     else parse_material_values rest material)"

fun parse_material_additional :: "(string \<times> Parameter) list \<Rightarrow> PBRMaterial \<Rightarrow> failure + PBRMaterial" where
  "parse_material_additional [] material = Inr material"
| "parse_material_additional (gltf_value # rest) material =
    (if fst gltf_value = ''emissiveFactor'' then
       (case number_array (snd gltf_value) of
          x # y # z # _ \<Rightarrow> parse_material_additional rest (material\<lparr>emissive := Some (x, y, z)\<rparr>)
        | _ \<Rightarrow> Inl UndefinedBehaviour)
     else if fst gltf_value = ''alphaMode'' then
       (if string_value (snd gltf_value) = ''BLEND'' then
          parse_material_additional rest (material\<lparr>alpha_mode := Some Blend\<rparr>)
        else if string_value (snd gltf_value) = ''OPAQUE'' then
          parse_material_additional rest (material\<lparr>alpha_mode := Some Opaque\<rparr>)
        else if string_value (snd gltf_value) = ''MASK'' then
          parse_material_additional rest (material\<lparr>alpha_mode := Some Mask\<rparr>)
        else parse_material_additional rest material)
     else if fst gltf_value = ''alphaCutoff'' then
       parse_material_additional rest (material\<lparr>alpha_cutoff := Some (number_value (snd gltf_value))\<rparr>)
     else if fst gltf_value = ''doubleSided'' then
       parse_material_additional rest (material\<lparr>double_sided := Some (bool_value (snd gltf_value))\<rparr>)
     else parse_material_additional rest material)"

definition parse_material :: "gltf_Material \<Rightarrow> failure + PBRMaterial" where
  "parse_material gltf_material =
    parse_material_additional (additionalValues gltf_material)
      (parse_material_values (material_values gltf_material)
        (new_PBRMaterial (material_name gltf_material)))"

definition create_default_material :: "failure + PBRMaterial" where
  "create_default_material =
    parse_material \<lparr>material_name = [], material_values = [], additionalValues = []\<rparr>"

text \<open>
  The loop of \<open>load_scene\<close> over one parameter map of a material: a key in which
  \<open>"Texture"\<close> occurs assigns the slot named by \<open>to_snake_case\<close>.
\<close>

fun bind_textures :: "nat list \<Rightarrow> (string \<times> Parameter) list \<Rightarrow> PBRMaterial \<Rightarrow> failure + PBRMaterial" where
  "bind_textures textures_v [] material = Inr material"
| "bind_textures textures_v (gltf_value # rest) material =
    (if string_find (fst gltf_value) ''Texture'' \<noteq> None then
       (let tex_name = to_snake_case (fst gltf_value) in
        case vec_at textures_v (size_t_of_int (TextureIndex (snd gltf_value))) of
          Inl e \<Rightarrow> Inl e
        | Inr texture \<Rightarrow>
            bind_textures textures_v rest
              (material\<lparr>sg_material_textures := (sg_material_textures material)(tex_name \<mapsto> texture)\<rparr>))
     else bind_textures textures_v rest material)"

definition load_material :: "nat list \<Rightarrow> gltf_Material \<Rightarrow> failure + PBRMaterial" where
  "load_material textures_v gltf_material =
    (case parse_material gltf_material of
       Inl e \<Rightarrow> Inl e
     | Inr material \<Rightarrow>
    (case bind_textures textures_v (material_values gltf_material) material of
       Inl e \<Rightarrow> Inl e
     | Inr material1 \<Rightarrow> bind_textures textures_v (additionalValues gltf_material) material1))"

fun load_materials :: "nat list \<Rightarrow> gltf_Material list \<Rightarrow> Loader \<Rightarrow> failure + Loader" where
  "load_materials textures_v [] st = Inr st"
| "load_materials textures_v (gltf_material # rest) st =
    (case load_material textures_v gltf_material of
       Inl e \<Rightarrow> Inl e
     | Inr material \<Rightarrow>
         load_materials textures_v rest (st\<lparr>c_PBRMaterial := c_PBRMaterial st @ [material]\<rparr>))"

subsection \<open>Meshes\<close>

definition parse_mesh :: "gltf_Mesh \<Rightarrow> Mesh" where
  "parse_mesh gltf_mesh = \<lparr>sg_mesh_name = mesh_name gltf_mesh, sg_mesh_submeshes = [], sg_mesh_nodes = []\<rparr>"

text \<open>
  The inner loop over the primitives of one mesh. A primitive that \<open>parse_primitive\<close>
  returns is bound to its material, appended to the mesh and stored in the scene.
\<close>

fun load_primitives ::
  "(nat \<Rightarrow> failure + nat) \<Rightarrow> (Accessor \<Rightarrow> BufferView \<Rightarrow> int) \<Rightarrow> Model \<Rightarrow> nat list \<Rightarrow> nat \<Rightarrow>
   Primitive list \<Rightarrow> Mesh \<Rightarrow> Loader \<Rightarrow> (Mesh \<times> Loader) outcome" where
  "load_primitives to_u32 ByteStride model materials_v default_material [] mesh st = Some (Inr (mesh, st))"
| "load_primitives to_u32 ByteStride model materials_v default_material (gltf_primitive # rest) mesh st =
    (case parse_primitive to_u32 ByteStride model gltf_primitive (messages st) of
       None \<Rightarrow> None
     | Some (Inl e) \<Rightarrow> Some (Inl e)
     | Some (Inr (submesh, lg)) \<Rightarrow>
       (case (if prim_material gltf_primitive < 0 then Inr default_material
              else vec_at materials_v (size_t_of_int (prim_material gltf_primitive))) of
          Inl e \<Rightarrow> Some (Inl e)
        | Inr material \<Rightarrow>
            load_primitives to_u32 ByteStride model materials_v default_material rest
              (mesh\<lparr>sg_mesh_submeshes := sg_mesh_submeshes mesh @ [length (c_SubMesh st)]\<rparr>)
              (st\<lparr>messages := lg,
                  c_SubMesh := c_SubMesh st @ [submesh\<lparr>submesh_material := Some material\<rparr>]\<rparr>)))"

fun load_meshes ::
  "(nat \<Rightarrow> failure + nat) \<Rightarrow> (Accessor \<Rightarrow> BufferView \<Rightarrow> int) \<Rightarrow> Model \<Rightarrow> nat list \<Rightarrow> nat \<Rightarrow>
   gltf_Mesh list \<Rightarrow> Loader \<Rightarrow> Loader outcome" where
  "load_meshes to_u32 ByteStride model materials_v default_material [] st = Some (Inr st)"
| "load_meshes to_u32 ByteStride model materials_v default_material (gltf_mesh # rest) st =
    (case load_primitives to_u32 ByteStride model materials_v default_material
            (primitives gltf_mesh) (parse_mesh gltf_mesh) st of
       None \<Rightarrow> None
     | Some (Inl e) \<Rightarrow> Some (Inl e)
     | Some (Inr (mesh, st1)) \<Rightarrow>
         load_meshes to_u32 ByteStride model materials_v default_material rest
           (st1\<lparr>c_Mesh := c_Mesh st1 @ [mesh]\<rparr>))"

subsection \<open>Cameras\<close>

text \<open>
  \<open>parse_camera\<close> returns a null pointer, with a warning, for a projection that is not
  \<open>"perspective"\<close>. The numbers of the camera are stored as they are given.
\<close>

definition parse_camera :: "gltf_Camera \<Rightarrow> log \<Rightarrow> Camera option \<times> log" where
  "parse_camera gltf_camera lg =
    (if camera_type gltf_camera = ''perspective'' then
       (Some \<lparr>sg_camera_name = camera_name gltf_camera,
              aspect_ratio = aspectRatio gltf_camera,
              field_of_view = yfov gltf_camera,
              near_plane = znear gltf_camera,
              far_plane = zfar gltf_camera,
              sg_camera_node = None\<rparr>, lg)
     else (None, lg @ [(LOGW, ''Camera type not supported'')]))"

text \<open>
  The literals of \<open>create_default_camera\<close> are \<open>1.77f\<close>, \<open>1.0f\<close>, \<open>0.1f\<close> and \<open>1000.0f\<close>; the
  model keeps the decimal numbers they denote.
\<close>

definition create_default_camera :: "log \<Rightarrow> Camera option \<times> log" where
  "create_default_camera lg =
    parse_camera \<lparr>camera_name = ''default_camera'', camera_type = ''perspective'',
      aspectRatio = 177 / 100, yfov = 1, znear = 1 / 10, zfar = 1000\<rparr> lg"

text \<open>
  Modelled from the spec: \<open>Scene::add_component\<close> belongs to the scene-graph container,
  declared outside this file. A component is appended to the components of its type; a
  camera of a projection that is not supported is omitted.
\<close>

definition add_camera_component :: "Camera option \<Rightarrow> Loader \<Rightarrow> Loader" where
  "add_camera_component camera st =
    (case camera of
       None \<Rightarrow> st
     | Some c \<Rightarrow> st\<lparr>c_Camera := c_Camera st @ [c]\<rparr>)"

fun load_cameras :: "gltf_Camera list \<Rightarrow> Loader \<Rightarrow> Loader" where
  "load_cameras [] st = st"
| "load_cameras (gltf_camera # rest) st =
    (let (camera, lg) = parse_camera gltf_camera (messages st)
     in load_cameras rest (add_camera_component camera (st\<lparr>messages := lg\<rparr>)))"

subsection \<open>Nodes\<close>

definition new_Node :: "string \<Rightarrow> Node" where
  "new_Node n = \<lparr>sg_node_name = n, parent = None, children = [], sg_node_mesh = None, sg_node_camera = None\<rparr>"

text \<open>\<open>std::make_unique<sg::Node>\<close>: the new object takes the next position of the store.\<close>

definition make_Node :: "string \<Rightarrow> Loader \<Rightarrow> nat \<times> Loader" where
  "make_Node n st = (length (node_store st), st\<lparr>node_store := node_store st @ [new_Node n]\<rparr>)"

definition update_node :: "nat \<Rightarrow> (Node \<Rightarrow> Node) \<Rightarrow> Loader \<Rightarrow> Loader" where
  "update_node a f st = st\<lparr>node_store := (node_store st)[a := f (node_store st ! a)]\<rparr>"

text \<open>
  One round of the loop over \<open>model.nodes\<close>: the node is created, a mesh and a camera are
  attached when the document names them, and the node is pushed onto the vector \<open>nodes\<close>.
\<close>

definition load_node :: "nat list \<Rightarrow> gltf_Node \<Rightarrow> nat list \<Rightarrow> Loader \<Rightarrow> failure + (nat list \<times> Loader)" where
  "load_node meshes_v gltf_node nodes_v st =
    (let (node, st1) = make_Node (node_name gltf_node) st in
     case (if node_mesh gltf_node \<ge> 0 then
             (case vec_at meshes_v (size_t_of_int (node_mesh gltf_node)) of
                Inl e \<Rightarrow> Inl e
              | Inr mesh \<Rightarrow>
                  Inr ((update_node node (\<lambda>n. n\<lparr>sg_node_mesh := Some mesh\<rparr>) st1)
                       \<lparr>c_Mesh := (c_Mesh st1)[mesh := (c_Mesh st1 ! mesh)
                           \<lparr>sg_mesh_nodes := sg_mesh_nodes (c_Mesh st1 ! mesh) @ [node]\<rparr>]\<rparr>))
           else Inr st1) of
       Inl e \<Rightarrow> Inl e
     | Inr st2 \<Rightarrow>
    (case (if node_camera gltf_node \<ge> 0 then
             (case vec_at (get_components (c_Camera st2)) (size_t_of_int (node_camera gltf_node)) of
                Inl e \<Rightarrow> Inl e
              | Inr camera \<Rightarrow>
                  Inr ((update_node node (\<lambda>n. n\<lparr>sg_node_camera := Some camera\<rparr>) st2)
                       \<lparr>c_Camera := (c_Camera st2)[camera := (c_Camera st2 ! camera)
                           \<lparr>sg_camera_node := Some node\<rparr>]\<rparr>))
           else Inr st2) of
       Inl e \<Rightarrow> Inl e
     | Inr st3 \<Rightarrow> Inr (nodes_v @ [node], st3)))"

fun load_nodes :: "nat list \<Rightarrow> gltf_Node list \<Rightarrow> nat list \<Rightarrow> Loader \<Rightarrow> failure + (nat list \<times> Loader)" where
  "load_nodes meshes_v [] nodes_v st = Inr (nodes_v, st)"
| "load_nodes meshes_v (gltf_node # rest) nodes_v st =
    (case load_node meshes_v gltf_node nodes_v st of
       Inl e \<Rightarrow> Inl e
     | Inr (nodes_v1, st1) \<Rightarrow> load_nodes meshes_v rest nodes_v1 st1)"

subsection \<open>Graph Builder\<close>

text \<open>
  Modelled from the spec: \<open>Node::set_parent\<close> and \<open>Node::add_child\<close> belong to the class
  \<open>sg::Node\<close>, declared outside this file. Attaching a node sets its parent back-reference
  and appends it to the child list of the parent.
\<close>

definition set_parent :: "nat \<Rightarrow> nat \<Rightarrow> Loader \<Rightarrow> Loader" where
  "set_parent node p st = update_node node (\<lambda>n. n\<lparr>parent := Some p\<rparr>) st"

definition add_child :: "nat \<Rightarrow> nat \<Rightarrow> Loader \<Rightarrow> Loader" where
  "add_child node child st = update_node node (\<lambda>n. n\<lparr>children := children n @ [child]\<rparr>) st"

text \<open>
  The \<open>while\<close> loop over the queue \<open>traverse_nodes\<close> of pairs (node reference, node index).
  \<open>nodes.at\<close> is checked, \<open>model.nodes[...]\<close> is not. The pairs pushed for the children of
  the current node carry \<open>root_node\<close>, the first component of the pair just popped, as
  the source has it. The loop ends when the queue is empty, which nothing guarantees.
\<close>

partial_function (option) traverse ::
  "gltf_Node list \<Rightarrow> nat list \<Rightarrow> (nat \<times> int) list \<Rightarrow> Loader \<Rightarrow> (failure + Loader) option" where
  "traverse model_nodes nodes_v traverse_nodes st =
    (case traverse_nodes of
       [] \<Rightarrow> Some (Inr st)
     | node_it # queue \<Rightarrow>
       (case vec_at nodes_v (size_t_of_int (snd node_it)) of
          Inl e \<Rightarrow> Some (Inl e)
        | Inr current_node \<Rightarrow>
          (let root_node = fst node_it;
               st1 = add_child root_node current_node (set_parent current_node root_node st)
           in if size_t_of_int (snd node_it) < length model_nodes then
                traverse model_nodes nodes_v
                  (queue @ map (\<lambda>child_node_index. (root_node, child_node_index))
                             (node_children (model_nodes ! size_t_of_int (snd node_it))))
                  st1
              else Some (Inl UndefinedBehaviour))))"

declare traverse.simps [code]

text \<open>
  Modelled from the spec: \<open>Scene::add_child\<close>, \<open>Scene::set_nodes\<close> and \<open>Scene::add_node\<close>
  belong to the scene-graph container. The scene owns the forest of root nodes: a child is
  appended to the roots of the scene, a node to the nodes the scene owns.
\<close>

definition scene_add_child :: "nat \<Rightarrow> Loader \<Rightarrow> Loader" where
  "scene_add_child node st = st\<lparr>scene_children := scene_children st @ [node]\<rparr>"

definition scene_set_nodes :: "nat list \<Rightarrow> Loader \<Rightarrow> Loader" where
  "scene_set_nodes nodes_v st = st\<lparr>scene_nodes := nodes_v\<rparr>"

definition scene_add_node :: "nat \<Rightarrow> Loader \<Rightarrow> Loader" where
  "scene_add_node node st = st\<lparr>scene_nodes := scene_nodes st @ [node]\<rparr>"

fun load_scenes :: "gltf_Node list \<Rightarrow> gltf_Scene list \<Rightarrow> nat list \<Rightarrow> Loader \<Rightarrow> (nat list \<times> Loader) outcome" where
  "load_scenes model_nodes [] nodes_v st = Some (Inr (nodes_v, st))"
| "load_scenes model_nodes (gltf_scene # rest) nodes_v st =
    (let (root_node, st1) = make_Node (gltf_scene_name gltf_scene) st in
     case traverse model_nodes nodes_v
            (map (\<lambda>node_index. (root_node, node_index)) (gltf_scene_nodes gltf_scene)) st1 of
       None \<Rightarrow> None
     | Some (Inl e) \<Rightarrow> Some (Inl e)
     | Some (Inr st2) \<Rightarrow>
         load_scenes model_nodes rest (nodes_v @ [root_node]) (scene_add_child root_node st2))"

subsection \<open>The default camera and \<open>load_scene\<close>\<close>

text \<open>
  The end of \<open>load_scene\<close>: the node \<open>"default_camera"\<close> is created, the default camera
  and the node refer to each other, the camera is stored after the cameras of the
  document, the node becomes a root child of the scene and a node the scene owns.
\<close>

definition add_default_camera :: "Loader \<Rightarrow> failure + Loader" where
  "add_default_camera st =
    (let (camera_node, st1) = make_Node ''default_camera'' st;
         (default_camera, lg) = create_default_camera (messages st1)
     in case default_camera of
          None \<Rightarrow> Inl UndefinedBehaviour
        | Some camera \<Rightarrow>
            Inr (scene_add_node camera_node
                  (scene_add_child camera_node
                    (add_camera_component (Some (camera\<lparr>sg_camera_node := Some camera_node\<rparr>))
                      (update_node camera_node (\<lambda>n. n\<lparr>sg_node_camera := Some (length (c_Camera st1))\<rparr>)
                        (st1\<lparr>messages := lg\<rparr>))))))"

definition load_scene ::
  "(nat \<Rightarrow> failure + nat) \<Rightarrow> (Accessor \<Rightarrow> BufferView \<Rightarrow> int) \<Rightarrow> Model \<Rightarrow> Loader outcome" where
  "load_scene to_u32 ByteStride model =
    (let st0 = new_Scene\<lparr>c_Sampler := map parse_sampler (samplers model),
                          c_Image := map parse_image (images model)\<rparr>;
         images_v = get_components (c_Image st0);
         samplers_v = get_components (c_Sampler st0);
         default_sampler = create_default_sampler
     in case load_textures images_v samplers_v (length (c_Sampler st0)) (textures model) st0 of
          Inl e \<Rightarrow> Some (Inl e)
        | Inr st1 \<Rightarrow>
       (let st2 = st1\<lparr>c_Sampler := c_Sampler st1 @ [default_sampler]\<rparr>
        in case load_materials (get_components (c_Texture st2)) (materials model) st2 of
             Inl e \<Rightarrow> Some (Inl e)
           | Inr st3 \<Rightarrow>
          (case create_default_material of
             Inl e \<Rightarrow> Some (Inl e)
           | Inr default_material \<Rightarrow>
          (case load_meshes to_u32 ByteStride model (get_components (c_PBRMaterial st3))
                  (length (c_PBRMaterial st3)) (meshes model) st3 of
             None \<Rightarrow> None
           | Some (Inl e) \<Rightarrow> Some (Inl e)
           | Some (Inr st4) \<Rightarrow>
          (let st5 = load_cameras (cameras model)
                       (st4\<lparr>c_PBRMaterial := c_PBRMaterial st4 @ [default_material]\<rparr>)
           in case load_nodes (get_components (c_Mesh st5)) (nodes model) [] st5 of
                Inl e \<Rightarrow> Some (Inl e)
              | Inr (nodes_v, st6) \<Rightarrow>
             (case load_scenes (nodes model) (scenes model) nodes_v st6 of
                None \<Rightarrow> None
              | Some (Inl e) \<Rightarrow> Some (Inl e)
              | Some (Inr (nodes_v1, st7)) \<Rightarrow>
                  Some (add_default_camera (scene_set_nodes nodes_v1 st7))))))))"

subsection \<open>Documents that hold a node hierarchy only\<close>

definition plain_node :: "int list \<Rightarrow> gltf_Node" where
  "plain_node cs = \<lparr>node_name = [], node_mesh = -1, node_camera = -1, node_children = cs\<rparr>"

definition graph_document :: "gltf_Node list \<Rightarrow> gltf_Scene list \<Rightarrow> Model" where
  "graph_document ns ss = \<lparr>accessors = [], bufferViews = [], buffers = [], samplers = [],
     images = [], textures = [], materials = [], meshes = [], cameras = [], nodes = ns, scenes = ss\<rparr>"

text \<open>The state in which \<open>load_scene\<close> reaches the loop over the nodes of such a document.\<close>

definition graph_base :: Loader where
  "graph_base = new_Scene\<lparr>c_Sampler := [create_default_sampler], c_PBRMaterial := [new_PBRMaterial []]\<rparr>"

subsection \<open>Reading a result\<close>

text \<open>
  \<open>on_result f r\<close> applies \<open>f\<close> to the value a call returned. \<open>hierarchy\<close> lists, for every
  node object in the order of creation, its parent back-reference and its child list.
  \<open>declared_stride\<close> is an instance of the parameter \<open>ByteStride\<close> for worked examples: the
  stride that the buffer view declares.
\<close>

definition on_result :: "('a \<Rightarrow> 'b) \<Rightarrow> 'a outcome \<Rightarrow> 'b outcome" where
  "on_result f r = map_option (map_sum id f) r"

definition hierarchy :: "Loader \<Rightarrow> (nat option \<times> nat list) list" where
  "hierarchy st = map (\<lambda>n. (parent n, children n)) (node_store st)"

definition declared_stride :: "Accessor \<Rightarrow> BufferView \<Rightarrow> int" where
  "declared_stride accessor bufferView = int (bv_byteStride bufferView)"

subsection \<open>Documents that hold accessors only\<close>

definition buffer_document :: "Accessor list \<Rightarrow> BufferView list \<Rightarrow> Buffer list \<Rightarrow> Model" where
  "buffer_document accs views bufs = \<lparr>accessors = accs, bufferViews = views, buffers = bufs,
     samplers = [], images = [], textures = [], materials = [], meshes = [], cameras = [],
     nodes = [], scenes = []\<rparr>"

text \<open>
  A document for worked examples: one scalar accessor of the given component type and
  element count over one buffer view with the given stride over one buffer.
\<close>

definition example_document :: "int \<Rightarrow> nat \<Rightarrow> nat \<Rightarrow> byte list \<Rightarrow> Model" where
  "example_document componentType n stride bytes =
    buffer_document
      [\<lparr>acc_bufferView = 0, acc_byteOffset = 0, acc_normalized = False,
        acc_componentType = componentType, acc_count = n, acc_type = TINYGLTF_TYPE_SCALAR\<rparr>]
      [\<lparr>bv_buffer = 0, bv_byteOffset = 0, bv_byteStride = stride\<rparr>]
      [\<lparr>buf_data = bytes\<rparr>]"

subsection \<open>What the specification expects of the bindings\<close>

text \<open>
  The texture binding in the words of the specification: a texture is bound to the image
  of its source index and to the sampler of its sampler index when that index is at
  least 0 and below the number \<open>n\<close> of parsed samplers; otherwise it is bound to the
  default sampler, the sampler at position \<open>n\<close> of the finished scene, and a warning is
  logged.
\<close>

definition bound_texture :: "nat list \<Rightarrow> gltf_Texture \<Rightarrow> nat \<Rightarrow> Texture" where
  "bound_texture images_v t sampler =
    \<lparr>sg_texture_name = texture_name t,
     sg_texture_image = Some (images_v ! size_t_of_int (texture_source t)),
     sg_texture_sampler = Some sampler\<rparr>"

definition bind_texture :: "nat list \<Rightarrow> nat \<Rightarrow> Loader \<Rightarrow> gltf_Texture \<Rightarrow> Loader" where
  "bind_texture images_v n st t =
    (if 0 \<le> texture_sampler t \<and> texture_sampler t < int n
     then st\<lparr>c_Texture := c_Texture st @ [bound_texture images_v t (nat (texture_sampler t))]\<rparr>
     else st\<lparr>messages := messages st @
                 [(LOGW, ''Sampler not found for texture '' @ texture_name t @ '', possible GLTF error'')],
              c_Texture := c_Texture st @ [bound_texture images_v t n]\<rparr>)"

text \<open>A document that holds samplers, images and textures only.\<close>

definition texture_document :: "gltf_Sampler list \<Rightarrow> gltf_Image list \<Rightarrow> gltf_Texture list \<Rightarrow> Model" where
  "texture_document smps imgs texs = \<lparr>accessors = [], bufferViews = [], buffers = [],
     samplers = smps, images = imgs, textures = texs, materials = [], meshes = [], cameras = [],
     nodes = [], scenes = []\<rparr>"

text \<open>
  The cameras the specification expects of a document: its perspective cameras, in the
  order of the document, and then the default camera, which belongs to the node \<open>a\<close>.
\<close>

definition document_cameras :: "gltf_Camera list \<Rightarrow> Camera list" where
  "document_cameras cams = List.map_filter (\<lambda>c. fst (parse_camera c [])) cams"

definition default_camera_at :: "nat \<Rightarrow> Camera" where
  "default_camera_at a =
    \<lparr>sg_camera_name = ''default_camera'', aspect_ratio = 177 / 100, field_of_view = 1,
     near_plane = 1 / 10, far_plane = 1000, sg_camera_node = Some a\<rparr>"

definition without_node :: "Camera \<Rightarrow> Camera" where
  "without_node c = c\<lparr>sg_camera_node := None\<rparr>"

text \<open>
  The scene with the default camera, as the specification describes the end of the
  load: a new node named \<open>default_camera\<close> holds the default camera, which is stored
  after the cameras of the document, and the node is appended to the roots of the scene
  and to the nodes the scene owns.
\<close>

definition with_default_camera :: "Loader \<Rightarrow> Loader" where
  "with_default_camera st =
    st\<lparr>c_Camera := c_Camera st @ [default_camera_at (length (node_store st))],
       node_store := node_store st @
         [\<lparr>sg_node_name = ''default_camera'', parent = None, children = [],
           sg_node_mesh = None, sg_node_camera = Some (length (c_Camera st))\<rparr>],
       scene_children := scene_children st @ [length (node_store st)],
       scene_nodes := scene_nodes st @ [length (node_store st)]\<rparr>"

text \<open>
  The texture slots the specification expects of a list of material properties: one slot
  for every key in which \<open>Texture\<close> occurs, named by the canonical form of the key and
  holding the texture of the property's index, in the order of the properties.
\<close>

definition texture_slots :: "nat list \<Rightarrow> (string \<times> Parameter) list \<Rightarrow> (string \<times> nat) list" where
  "texture_slots textures_v kvs =
    map (\<lambda>kv. (to_snake_case (fst kv), textures_v ! size_t_of_int (TextureIndex (snd kv))))
      (filter (\<lambda>kv. string_find (fst kv) ''Texture'' \<noteq> None) kvs)"

text \<open>A material property for worked examples: it refers to the texture \<open>i\<close> and holds zeros.\<close>

definition texture_parameter :: "int \<Rightarrow> Parameter" where
  "texture_parameter i = \<lparr>TextureIndex = i, ColorFactor = (0, 0, 0, 0), Factor = 0,
     number_array = [], number_value = 0, string_value = [], bool_value = False\<rparr>"

section \<open>Properties of the loader\<close>

lemmas tinygltf_consts =
  TINYGLTF_COMPONENT_TYPE_BYTE_def TINYGLTF_COMPONENT_TYPE_UNSIGNED_BYTE_def
  TINYGLTF_COMPONENT_TYPE_SHORT_def TINYGLTF_COMPONENT_TYPE_UNSIGNED_SHORT_def
  TINYGLTF_COMPONENT_TYPE_INT_def TINYGLTF_COMPONENT_TYPE_UNSIGNED_INT_def
  TINYGLTF_COMPONENT_TYPE_FLOAT_def
  TINYGLTF_TYPE_VEC2_def TINYGLTF_TYPE_VEC3_def TINYGLTF_TYPE_VEC4_def TINYGLTF_TYPE_SCALAR_def

lemmas format_tables =
  byte_format_def unsigned_byte_format_def unsigned_byte_format_normalize_def short_format_def
  unsigned_short_format_def unsigned_short_format_normalize_def int_format_def
  unsigned_int_format_def float_format_def

subsection \<open>Format Resolver\<close>

lemma accessor_format_defined:
  assumes "acc_componentType a \<in> set component_types" and "acc_type a \<in> set element_types"
  shows "\<exists>f. accessor_format a = Inr f \<and> f \<noteq> VK_FORMAT_UNDEFINED"
  using assms
  by (auto simp: component_types_def element_types_def accessor_format_def map_at_def
        tinygltf_consts format_tables)

lemma accessor_format_normalized_ignored:
  assumes "acc_componentType a \<noteq> TINYGLTF_COMPONENT_TYPE_UNSIGNED_BYTE"
    and "acc_componentType a \<noteq> TINYGLTF_COMPONENT_TYPE_UNSIGNED_SHORT"
  shows "accessor_format (a\<lparr>acc_normalized := b\<rparr>) = accessor_format a"
  using assms by (simp add: accessor_format_def Let_def)

lemma accessor_format_outside:
  assumes "acc_componentType a \<notin> set component_types"
  shows "accessor_format a = Inr VK_FORMAT_UNDEFINED"
  using assms by (simp add: accessor_format_def Let_def component_types_def)

text \<open>
  Claim C3, as stated, fails: a normalized 32-bit signed integer scalar does not resolve
  to the undefined format. The \<open>INT\<close> case has one table and does not read the
  normalized flag, so the accessor resolves to \<open>VK_FORMAT_R32_SINT\<close>.
\<close>

theorem format_resolver_normalized_int32_counterexample:
  "get_attribute_format
     [\<lparr>acc_bufferView = 0, acc_byteOffset = 0, acc_normalized = True,
       acc_componentType = TINYGLTF_COMPONENT_TYPE_INT, acc_count = 1,
       acc_type = TINYGLTF_TYPE_SCALAR\<rparr>] 0 = Inr VK_FORMAT_R32_SINT
   \<and> VK_FORMAT_R32_SINT \<noteq> VK_FORMAT_UNDEFINED"
  by (simp add: get_attribute_format_def vec_at_def accessor_format_def map_at_def
        tinygltf_consts format_tables)

text \<open>
  Claim C3, amended: over the 7 component types, 4 arities and 2 values of the normalized
  flag the Format Resolver returns a format, and never the undefined one; the normalized
  flag changes the result only for unsigned 8-bit and unsigned 16-bit components (so a
  normalized 32-bit integer resolves as the plain one does); the undefined format is the
  result exactly for a component type outside the seven.
\<close>

theorem format_resolver_total:
  assumes "accessorId < length accs"
    and "acc_type (accs ! accessorId) \<in> set element_types"
  shows "(acc_componentType (accs ! accessorId) \<in> set component_types \<longrightarrow>
            (\<exists>f. get_attribute_format accs accessorId = Inr f \<and> f \<noteq> VK_FORMAT_UNDEFINED))
       \<and> (acc_componentType (accs ! accessorId) \<notin> set component_types \<longrightarrow>
            get_attribute_format accs accessorId = Inr VK_FORMAT_UNDEFINED)
       \<and> (acc_componentType (accs ! accessorId) \<noteq> TINYGLTF_COMPONENT_TYPE_UNSIGNED_BYTE \<and>
          acc_componentType (accs ! accessorId) \<noteq> TINYGLTF_COMPONENT_TYPE_UNSIGNED_SHORT \<longrightarrow>
            get_attribute_format (accs[accessorId := (accs ! accessorId)\<lparr>acc_normalized := b\<rparr>]) accessorId
              = get_attribute_format accs accessorId)"
proof -
  have at: "get_attribute_format accs accessorId = accessor_format (accs ! accessorId)"
    using assms(1) by (simp add: get_attribute_format_def vec_at_def)
  have at': "get_attribute_format (accs[accessorId := (accs ! accessorId)\<lparr>acc_normalized := b\<rparr>]) accessorId
      = accessor_format ((accs ! accessorId)\<lparr>acc_normalized := b\<rparr>)"
    using assms(1) by (simp add: get_attribute_format_def vec_at_def)
  show ?thesis
    unfolding at at'
    using accessor_format_defined [OF _ assms(2)] accessor_format_outside [of "accs ! accessorId"]
      accessor_format_normalized_ignored [of "accs ! accessorId" b]
    by blast
qed

theorem format_resolver_total_witness:
  "(\<exists>f. get_attribute_format
      [\<lparr>acc_bufferView = 0, acc_byteOffset = 0, acc_normalized = True,
        acc_componentType = TINYGLTF_COMPONENT_TYPE_INT, acc_count = 1,
        acc_type = TINYGLTF_TYPE_SCALAR\<rparr>] 0 = Inr f \<and> f \<noteq> VK_FORMAT_UNDEFINED)
   \<and> get_attribute_format
      [\<lparr>acc_bufferView = 0, acc_byteOffset = 0, acc_normalized = False,
        acc_componentType = TINYGLTF_COMPONENT_TYPE_INT, acc_count = 1,
        acc_type = TINYGLTF_TYPE_SCALAR\<rparr>] 0
     = get_attribute_format
      [\<lparr>acc_bufferView = 0, acc_byteOffset = 0, acc_normalized = True,
        acc_componentType = TINYGLTF_COMPONENT_TYPE_INT, acc_count = 1,
        acc_type = TINYGLTF_TYPE_SCALAR\<rparr>] 0"
  using format_resolver_total [of 0
      "[\<lparr>acc_bufferView = 0, acc_byteOffset = 0, acc_normalized = True,
        acc_componentType = TINYGLTF_COMPONENT_TYPE_INT, acc_count = 1,
        acc_type = TINYGLTF_TYPE_SCALAR\<rparr>]" False]
  by (simp add: element_types_def component_types_def tinygltf_consts)

subsection \<open>Index Width Normalizer\<close>

lemma length_widen_le16: "length (widen_le16 bytes) = 2 * length bytes"
  by (induction bytes) (simp_all add: widen_le16_def)

lemma convert_loop_widen:
  assumes "length src < 2 ^ 31"
    and "i \<le> length src"
    and "length res = 2 * length src"
    and "drop (2 * i) res = replicate (2 * (length src - i)) 0"
  shows "convert_loop src 1 2 i (2 * i) res = Some (Inr (take (2 * i) res @ widen_le16 (drop i src)))"
  using assms(2-4)
proof (induction "length src - i" arbitrary: i res)
  case 0
  then have "i = length src" by simp
  with 0 show ?case
    by (subst convert_loop.simps) (simp add: widen_le16_def)
next
  case (Suc k)
  then have lt: "i < length src" by simp
  define res' where "res' = take (2 * i) res @ take 1 (drop i src) @ drop (2 * i + 1) res"
  have hd: "take 1 (drop i src) = [src ! i]"
    using lt by (simp add: take_Suc_conv_app_nth)
  have len': "length res' = 2 * length src"
    using lt Suc.prems by (simp add: res'_def hd)
  have d1: "drop (2 * i + 1) res = 0 # drop (2 * Suc i) res"
  proof -
    have "drop (2 * i) res = 0 # 0 # replicate (2 * (length src - Suc i)) 0"
      using Suc.prems(3) lt
      by (metis (no_types, opaque_lifting) Suc_diff_Suc mult_Suc_right replicate_Suc add_2_eq_Suc)
    then have "drop 1 (drop (2 * i) res) = 0 # replicate (2 * (length src - Suc i)) 0"
        and "drop 2 (drop (2 * i) res) = replicate (2 * (length src - Suc i)) 0"
      by simp_all
    then show ?thesis by (simp add: add.commute)
  qed
  have alt: "res' = take (2 * i) res @ [src ! i, 0] @ drop (2 * Suc i) res"
    unfolding res'_def hd d1 by simp
  have lt2: "length (take (2 * i) res) = 2 * i"
    using lt Suc.prems(2) by simp
  have drop': "drop (2 * Suc i) res' = replicate (2 * (length src - Suc i)) 0"
  proof -
    have "drop (2 * Suc i) res' = drop (2 * i + 2) ((take (2 * i) res @ [src ! i, 0]) @ drop (2 * Suc i) res)"
      unfolding alt by simp
    also have "\<dots> = drop (2 * Suc i) res"
      using lt2 by (subst drop_append) simp
    also have "\<dots> = drop 2 (drop (2 * i) res)" by (simp add: add.commute)
    finally show ?thesis using Suc.prems(3) lt
      by (simp add: Suc_diff_Suc)
  qed
  have take': "take (2 * Suc i) res' = take (2 * i) res @ [src ! i, 0]"
  proof -
    have "take (2 * Suc i) res' = take (2 * i + 2) ((take (2 * i) res @ [src ! i, 0]) @ drop (2 * Suc i) res)"
      unfolding alt by simp
    also have "\<dots> = take (2 * i) res @ [src ! i, 0]"
      using lt2 by (subst take_append) simp
    finally show ?thesis .
  qed
  have IH: "convert_loop src 1 2 (Suc i) (2 * Suc i) res'
      = Some (Inr (take (2 * Suc i) res' @ widen_le16 (drop (Suc i) src)))"
    using Suc.hyps(1) [of "Suc i" res'] Suc.hyps(2) lt len' drop' by simp
  have b1: "Suc i < 2 ^ 32" and b2: "Suc (Suc (2 * i)) < 2 ^ 32"
    using lt assms(1) by simp_all
  have step: "convert_loop src 1 2 i (2 * i) res = convert_loop src 1 2 (Suc i) (2 * Suc i) res'"
    using lt Suc.prems(2) b1 b2
    by (subst convert_loop.simps) (simp add: res'_def)
  have "drop i src = src ! i # drop (Suc i) src"
    using lt by (simp add: Cons_nth_drop_Suc)
  then have "widen_le16 (drop i src) = [src ! i, 0] @ widen_le16 (drop (Suc i) src)"
    by (simp add: widen_le16_def)
  with step IH take' show ?case by simp
qed

lemma convert_data_widen:
  assumes "to_u32 (length src) = Inr (length src)" and "length src < 2 ^ 31"
  shows "convert_data to_u32 src 1 2 = Some (Inr (widen_le16 src))"
proof -
  have "(length src * 2) mod 2 ^ 32 = 2 * length src" using assms(2) by simp
  then show ?thesis
    using convert_loop_widen [of src 0 "replicate (2 * length src) 0"] assms
    by (simp add: convert_data_def mult.commute)
qed


lemma nth_widen_le16:
  "k < length bytes \<Longrightarrow> widen_le16 bytes ! (2 * k) = bytes ! k \<and> widen_le16 bytes ! (2 * k + 1) = 0"
proof (induction bytes arbitrary: k)
  case Nil
  then show ?case by simp
next
  case (Cons b bytes)
  show ?case
  proof (cases k)
    case 0
    then show ?thesis by (simp add: widen_le16_def)
  next
    case (Suc j)
    with Cons.prems have "j < length bytes" by simp
    from Cons.IH [OF this] Suc show ?thesis by (simp add: widen_le16_def)
  qed
qed

lemma convert_data_wraps:
  assumes "to_u32 (length src) = Inr (length src)" and "length src = 2 ^ 31"
  shows "convert_data to_u32 src 1 2 = Some (Inr [])"
proof -
  have w: "(length src div 1 * 2) mod 2 ^ 32 = 0"
    unfolding assms(2) by simp
  have l: "convert_loop src 1 2 0 0 [] = Some (Inr [])"
    by (subst convert_loop.simps) simp
  show ?thesis
    unfolding convert_data_def
    by (simp only: assms(1) sum.case Let_def w replicate_0 l one_neq_zero if_False)
qed

text \<open>
  Claim C4, as stated, fails: the element count is not preserved for every 8-bit index
  sequence. For a sequence of \<open>2 ^ 31\<close> elements the conversion of the length to
  \<open>uint32_t\<close> is still exact, but the size of the result, \<open>elem_count * dstStride\<close>, is a
  \<open>uint32_t\<close> product and wraps to 0: the index bytes handed on are empty.
\<close>

theorem index_width_normalizer_wraps_counterexample:
  "index_switch Inr VK_FORMAT_R8_UINT (replicate (2 ^ 31) 0) new_SubMesh []
     = Some (Inr ([], new_SubMesh\<lparr>index_type := VK_INDEX_TYPE_UINT16\<rparr>, []))
   \<and> length (replicate (2 ^ 31) (0 :: byte)) = 2 ^ 31"
proof -
  have "convert_data Inr (replicate (2 ^ 31) (0 :: byte)) 1 2 = Some (Inr [])"
    by (rule convert_data_wraps) (simp_all only: length_replicate)
  then show ?thesis
    by (simp only: index_switch_def if_True option.case sum.case length_replicate simp_thms)
qed

text \<open>
  Claim C4, amended: for an 8-bit index sequence of fewer than \<open>2 ^ 31\<close> elements, the
  range in which the 32-bit counters of \<open>convert_data\<close> hold the doubled length, the index
  bytes handed to the index buffer on an 8-bit index accessor (\<open>VK_FORMAT_R8_UINT\<close>) are
  the input widened to 16-bit little-endian elements with a zero upper byte, element for
  element and in the same order; on a 16-bit or a 32-bit index accessor they are the
  input itself.
\<close>

theorem index_width_normalizer:
  assumes "to_u32 (length index_data) = Inr (length index_data)"
    and "length index_data < 2 ^ 31"
  shows "index_switch to_u32 VK_FORMAT_R8_UINT index_data submesh lg
           = Some (Inr (widen_le16 index_data, submesh\<lparr>index_type := VK_INDEX_TYPE_UINT16\<rparr>, lg))
       \<and> length (widen_le16 index_data) = 2 * length index_data
       \<and> (\<forall>k < length index_data.
             widen_le16 index_data ! (2 * k) = index_data ! k \<and> widen_le16 index_data ! (2 * k + 1) = 0)
       \<and> index_switch to_u32 VK_FORMAT_R16_UINT index_data submesh lg
           = Some (Inr (index_data, submesh\<lparr>index_type := VK_INDEX_TYPE_UINT16\<rparr>, lg))
       \<and> index_switch to_u32 VK_FORMAT_R32_UINT index_data submesh lg
           = Some (Inr (index_data, submesh\<lparr>index_type := VK_INDEX_TYPE_UINT32\<rparr>, lg))"
  using convert_data_widen [of to_u32 index_data] assms nth_widen_le16 [of _ index_data]
  by (simp add: index_switch_def length_widen_le16)

theorem index_width_normalizer_witness:
  "index_switch Inr VK_FORMAT_R8_UINT [3, 255, 0] new_SubMesh []
     = Some (Inr ([3, 0, 255, 0, 0, 0], new_SubMesh\<lparr>index_type := VK_INDEX_TYPE_UINT16\<rparr>, []))
   \<and> index_switch Inr VK_FORMAT_R16_UINT [3, 255, 0] new_SubMesh []
     = Some (Inr ([3, 255, 0], new_SubMesh\<lparr>index_type := VK_INDEX_TYPE_UINT16\<rparr>, []))
   \<and> index_switch Inr VK_FORMAT_R32_UINT [3, 255, 0, 1] new_SubMesh []
     = Some (Inr ([3, 255, 0, 1], new_SubMesh\<lparr>index_type := VK_INDEX_TYPE_UINT32\<rparr>, []))"
  using index_width_normalizer [of Inr "[3, 255, 0]" new_SubMesh "[]"]
    index_width_normalizer [of Inr "[3, 255, 0, 1]" new_SubMesh "[]"]
  by (simp add: widen_le16_def)

subsection \<open>Graph Builder\<close>

lemma size_t_of_int_small [simp]:
  "size_t_of_int 0 = 0" "size_t_of_int 1 = 1" "size_t_of_int 2 = 2" "size_t_of_int 3 = 3"
  by (simp_all add: size_t_of_int_def)

lemma load_scene_graph_document:
  "load_scene to_u32 ByteStride (graph_document ns ss) =
    (case load_nodes [] ns [] graph_base of
       Inl e \<Rightarrow> Some (Inl e)
     | Inr (nodes_v, st6) \<Rightarrow>
         (case load_scenes ns ss nodes_v st6 of
            None \<Rightarrow> None
          | Some (Inl e) \<Rightarrow> Some (Inl e)
          | Some (Inr (nodes_v1, st7)) \<Rightarrow> Some (add_default_camera (scene_set_nodes nodes_v1 st7))))"
  by (simp add: load_scene_def graph_document_def graph_base_def new_Scene_def get_components_def
        create_default_material_def parse_material_def cong: sum.case_cong option.case_cong)

lemmas graph_eval = traverse.simps vec_at_def set_parent_def add_child_def update_node_def
  plain_node_def new_Node_def make_Node_def scene_add_child_def load_node_def

lemma add_default_camera_hierarchy:
  "\<exists>X. add_default_camera st = Inr X \<and> hierarchy X = hierarchy st @ [(None, [])]"
  by (simp add: add_default_camera_def make_Node_def create_default_camera_def parse_camera_def
        scene_add_node_def scene_add_child_def add_camera_component_def update_node_def
        new_Node_def hierarchy_def)

text \<open>
  Claim C1 on the document of the specification: roots \<open>[0]\<close>, node 0 with children
  \<open>[1, 2]\<close>, node 1 with children \<open>[3]\<close>. The claim wants node 0 under the scene root,
  nodes 1 and 2 under node 0 and node 3 under node 1. The loader attaches all four nodes
  to the scene root (the node object 4): the pairs pushed for the children carry
  \<open>root_node\<close>, the parent of the node just attached, not the node itself. The last
  entry is the node of the default camera.
\<close>

theorem graph_builder_attaches_to_scene_root:
  "on_result hierarchy
     (load_scene Inr declared_stride
        (graph_document [plain_node [1, 2], plain_node [3], plain_node [], plain_node []]
           [\<lparr>gltf_scene_name = ''scene'', gltf_scene_nodes = [0]\<rparr>]))
   = Some (Inr [(Some 4, []), (Some 4, []), (Some 4, []), (Some 4, []),
                (None, [0, 1, 2, 3]), (None, [])])"
proof -
  define ns where "ns = [plain_node [1, 2], plain_node [3], plain_node [], plain_node []]"
  define st6 where "st6 = graph_base\<lparr>node_store := [new_Node [], new_Node [], new_Node [], new_Node []]\<rparr>"
  define st7 where "st7 = st6\<lparr>node_store :=
      [(new_Node [])\<lparr>parent := Some 4\<rparr>, (new_Node [])\<lparr>parent := Some 4\<rparr>,
       (new_Node [])\<lparr>parent := Some 4\<rparr>, (new_Node [])\<lparr>parent := Some 4\<rparr>,
       (new_Node ''scene'')\<lparr>children := [0, 1, 2, 3]\<rparr>],
      scene_children := [4]\<rparr>"
  have n: "load_nodes [] ns [] graph_base = Inr ([0, 1, 2, 3], st6)"
    by (simp add: ns_def st6_def graph_base_def new_Scene_def load_node_def plain_node_def
          make_Node_def new_Node_def numeral_eq_Suc)
  have s: "load_scenes ns [\<lparr>gltf_scene_name = ''scene'', gltf_scene_nodes = [0]\<rparr>] [0, 1, 2, 3] st6
      = Some (Inr ([0, 1, 2, 3, 4], st7))"
    by (simp add: ns_def st6_def st7_def graph_base_def new_Scene_def graph_eval numeral_eq_Suc)
  obtain X where X: "add_default_camera (scene_set_nodes [0, 1, 2, 3, 4] st7) = Inr X"
    and hX: "hierarchy X = hierarchy (scene_set_nodes [0, 1, 2, 3, 4] st7) @ [(None, [])]"
    using add_default_camera_hierarchy by blast
  have h7: "hierarchy (scene_set_nodes [0, 1, 2, 3, 4] st7)
      = [(Some 4, []), (Some 4, []), (Some 4, []), (Some 4, []), (None, [0, 1, 2, 3])]"
    by (simp add: hierarchy_def scene_set_nodes_def st7_def new_Node_def)
  have full: "load_scene Inr declared_stride
      (graph_document ns [\<lparr>gltf_scene_name = ''scene'', gltf_scene_nodes = [0]\<rparr>]) = Some (Inr X)"
    by (simp only: load_scene_graph_document n s X sum.case prod.case option.case)
  show ?thesis
    using h7 by (simp add: full [unfolded ns_def] on_result_def hX)
qed

subsection \<open>Attribute Extractor\<close>

lemma get_attribute_data_range:
  assumes "accessorId < length (accessors model)"
    and "accessors model ! accessorId = accessor"
    and "size_t_of_int (acc_bufferView accessor) < length (bufferViews model)"
    and "bufferViews model ! size_t_of_int (acc_bufferView accessor) = bufferView"
    and "size_t_of_int (bv_buffer bufferView) < length (buffers model)"
    and "buffers model ! size_t_of_int (bv_buffer bufferView) = buffer"
    and "size_t_of_int (ByteStride accessor bufferView) = S"
    and "acc_byteOffset accessor + bv_byteOffset bufferView = O'"
    and "O' + acc_count accessor * S < 2 ^ 64"
  shows "get_attribute_data ByteStride model accessorId =
    (if O' + acc_count accessor * S \<le> length (buf_data buffer)
     then Inr (take (acc_count accessor * S) (drop O' (buf_data buffer)))
     else Inl UndefinedBehaviour)"
proof -
  have o: "O' mod 2 ^ 64 = O'" and n: "(acc_count accessor * S) mod 2 ^ 64 = acc_count accessor * S"
    using assms(9) by simp_all
  have e: "(O' + acc_count accessor * S) mod 2 ^ 64 = O' + acc_count accessor * S"
    using assms(9) by simp
  have a: "vec_at (accessors model) accessorId = Inr accessor"
    using assms(1,2) by (simp add: vec_at_def)
  have v: "vec_at (bufferViews model) (size_t_of_int (acc_bufferView accessor)) = Inr bufferView"
    using assms(3,4) by (simp add: vec_at_def)
  have b: "vec_at (buffers model) (size_t_of_int (bv_buffer bufferView)) = Inr buffer"
    using assms(5,6) by (simp add: vec_at_def)
  have r: "iterator_range (buf_data buffer) O' (O' + acc_count accessor * S) =
      (if O' + acc_count accessor * S \<le> length (buf_data buffer)
       then Inr (take (acc_count accessor * S) (drop O' (buf_data buffer)))
       else Inl UndefinedBehaviour)"
    by (simp add: iterator_range_def)
  show ?thesis
    unfolding get_attribute_data_def
    by (simp only: a v b sum.case Let_def assms(7,8) o n e r)
qed

text \<open>
  Claim C2 wants an \<open>OutOfRange\<close> failure whenever the byte range ends behind the buffer.
  The lookups of the accessor, the buffer view and the buffer are checked (\<open>at\<close>), the
  byte range is not: for two elements of stride 4 at offset 0 in a buffer of 4 bytes the
  function builds the vector from iterators that leave the buffer, a read outside the
  object, and throws nothing.
\<close>

theorem get_attribute_data_reads_past_the_buffer:
  "get_attribute_data declared_stride
     (buffer_document
        [\<lparr>acc_bufferView = 0, acc_byteOffset = 0, acc_normalized = False,
          acc_componentType = TINYGLTF_COMPONENT_TYPE_FLOAT, acc_count = 2,
          acc_type = TINYGLTF_TYPE_SCALAR\<rparr>]
        [\<lparr>bv_buffer = 0, bv_byteOffset = 0, bv_byteStride = 4\<rparr>]
        [\<lparr>buf_data = [1, 2, 3, 4]\<rparr>]) 0
   = Inl UndefinedBehaviour"
  by (simp add: get_attribute_data_def buffer_document_def declared_stride_def vec_at_def
        size_t_of_int_def iterator_range_def)

subsection \<open>Primitive Materializer\<close>

lemma parse_attributes_keeps_count:
  assumes "parse_attributes to_u32 ByteStride model attrs submesh = Inr submesh'"
    and "\<forall>a \<in> set attrs. map tolower (fst a) \<noteq> ''position''"
  shows "vertices_count submesh' = vertices_count submesh"
  using assms
proof (induction attrs arbitrary: submesh)
  case Nil
  then show ?case by simp
next
  case (Cons a attrs)
  from Cons.prems show ?case
    by (auto simp: Let_def split: sum.splits option.splits dest!: Cons.IH)
qed

lemma parse_attributes_position_count:
  assumes "parse_attributes to_u32 ByteStride model attrs submesh = Inr submesh'"
    and "\<exists>a \<in> set attrs. map tolower (fst a) = ''position''"
  shows "\<exists>a \<in> set attrs. map tolower (fst a) = ''position'' \<and>
           (\<exists>accessor. vec_at (accessors model) (size_t_of_int (snd a)) = Inr accessor
              \<and> to_u32 (acc_count accessor) = Inr (vertices_count submesh'))"
  using assms
proof (induction attrs arbitrary: submesh)
  case Nil
  then show ?case by simp
next
  case (Cons a attrs)
  show ?case
  proof (cases "\<exists>b \<in> set attrs. map tolower (fst b) = ''position''")
    case True
    from Cons.prems(1) obtain submesh2 where
      "parse_attributes to_u32 ByteStride model attrs submesh2 = Inr submesh'"
      by (auto simp: Let_def split: sum.splits option.splits if_splits)
    from Cons.IH [OF this True] show ?thesis by auto
  next
    case False
    with Cons.prems(2) have a: "map tolower (fst a) = ''position''" by auto
    from False have no: "\<forall>b \<in> set attrs. map tolower (fst b) \<noteq> ''position''" by simp
    from Cons.prems(1) a obtain accessor n submesh2 where
      acc: "vec_at (accessors model) (size_t_of_int (snd a)) = Inr accessor"
      and n: "to_u32 (acc_count accessor) = Inr n"
      and rest: "parse_attributes to_u32 ByteStride model attrs submesh2 = Inr submesh'"
      and cnt: "vertices_count submesh2 = n"
      by (auto simp: Let_def split: sum.splits option.splits)
    from parse_attributes_keeps_count [OF rest no] cnt have "vertices_count submesh' = n" by simp
    with acc n a show ?thesis by auto
  qed
qed

lemma index_switch_keeps_count:
  "index_switch to_u32 format index_data submesh lg = Some (Inr (d, submesh', lg'))
     \<Longrightarrow> vertices_count submesh' = vertices_count submesh \<and> vertex_indices submesh' = vertex_indices submesh"
  by (auto simp: index_switch_def split: if_splits option.splits sum.splits)

lemma parse_indices_keeps_count:
  "parse_indices to_u32 ByteStride model indices submesh lg = Some (Inr (submesh', lg'))
     \<Longrightarrow> vertices_count submesh' = vertices_count submesh"
  by (auto simp: parse_indices_def split: sum.splits option.splits dest!: index_switch_keeps_count)


text \<open>
  Claim C10: the vertex count comes from a position attribute only. With an index
  accessor the primitive is the one the index part returns for the result of the
  attribute loop, its count is the element count of an attribute whose lowercased name
  is \<open>position\<close>, and zero when there is none. Without an index accessor the primitive is
  returned with the element count of the attribute under the key \<open>POSITION\<close>; when that
  key is absent no primitive is returned, and the failure is the out-of-range lookup as
  soon as the attribute loop itself went through.
\<close>

theorem primitive_vertex_count:
  "(0 \<le> prim_indices p \<and> parse_primitive to_u32 ByteStride model p lg = Some (Inr (submesh, lg')) \<longrightarrow>
      (if \<exists>a \<in> set (prim_attributes p). map tolower (fst a) = ''position''
       then \<exists>a \<in> set (prim_attributes p). map tolower (fst a) = ''position'' \<and>
              (\<exists>accessor. vec_at (accessors model) (size_t_of_int (snd a)) = Inr accessor
                 \<and> to_u32 (acc_count accessor) = Inr (vertices_count submesh))
       else vertices_count submesh = 0))
   \<and> (0 \<le> prim_indices p
        \<and> parse_attributes to_u32 ByteStride model (prim_attributes p) new_SubMesh = Inr s
        \<and> parse_indices to_u32 ByteStride model (prim_indices p) s lg = Some (Inr (submesh, lg')) \<longrightarrow>
      parse_primitive to_u32 ByteStride model p lg = Some (Inr (submesh, lg'))
      \<and> vertices_count submesh = vertices_count s)
   \<and> (prim_indices p < 0
        \<and> parse_attributes to_u32 ByteStride model (prim_attributes p) new_SubMesh = Inr s
        \<and> map_of (prim_attributes p) ''POSITION'' = Some i
        \<and> get_attribute_size model (u32_of_int i) = Inr c \<and> to_u32 c = Inr n \<longrightarrow>
      parse_primitive to_u32 ByteStride model p lg = Some (Inr (s\<lparr>vertices_count := n\<rparr>, lg)))
   \<and> (prim_indices p < 0 \<and> map_of (prim_attributes p) ''POSITION'' = Some i
        \<and> parse_primitive to_u32 ByteStride model p lg = Some (Inr (submesh, lg')) \<longrightarrow>
      (\<exists>c. get_attribute_size model (u32_of_int i) = Inr c \<and> to_u32 c = Inr (vertices_count submesh)))
   \<and> (prim_indices p < 0 \<and> map_of (prim_attributes p) ''POSITION'' = None \<longrightarrow>
      (\<exists>e. parse_primitive to_u32 ByteStride model p lg = Some (Inl e))
      \<and> (\<forall>s. parse_attributes to_u32 ByteStride model (prim_attributes p) new_SubMesh = Inr s \<longrightarrow>
             parse_primitive to_u32 ByteStride model p lg = Some (Inl OutOfRange)))"
proof (intro conjI impI)
  assume a: "0 \<le> prim_indices p \<and> parse_primitive to_u32 ByteStride model p lg = Some (Inr (submesh, lg'))"
  then obtain s where s: "parse_attributes to_u32 ByteStride model (prim_attributes p) new_SubMesh = Inr s"
    and i: "parse_indices to_u32 ByteStride model (prim_indices p) s lg = Some (Inr (submesh, lg'))"
    by (auto simp: parse_primitive_def split: sum.splits)
  have c: "vertices_count submesh = vertices_count s"
    using parse_indices_keeps_count [OF i] .
  show "if \<exists>a \<in> set (prim_attributes p). map tolower (fst a) = ''position''
       then \<exists>a \<in> set (prim_attributes p). map tolower (fst a) = ''position'' \<and>
              (\<exists>accessor. vec_at (accessors model) (size_t_of_int (snd a)) = Inr accessor
                 \<and> to_u32 (acc_count accessor) = Inr (vertices_count submesh))
       else vertices_count submesh = 0"
  proof (cases "\<exists>a \<in> set (prim_attributes p). map tolower (fst a) = ''position''")
    case True
    from parse_attributes_position_count [OF s True] True show ?thesis
      unfolding c by simp
  next
    case False
    then have "\<forall>a \<in> set (prim_attributes p). map tolower (fst a) \<noteq> ''position''" by simp
    from parse_attributes_keeps_count [OF s this] False show ?thesis
      unfolding c by (simp add: new_SubMesh_def)
  qed
next
  assume b: "0 \<le> prim_indices p
        \<and> parse_attributes to_u32 ByteStride model (prim_attributes p) new_SubMesh = Inr s
        \<and> parse_indices to_u32 ByteStride model (prim_indices p) s lg = Some (Inr (submesh, lg'))"
  then show "parse_primitive to_u32 ByteStride model p lg = Some (Inr (submesh, lg'))"
    by (simp add: parse_primitive_def)
  from b have "parse_indices to_u32 ByteStride model (prim_indices p) s lg = Some (Inr (submesh, lg'))"
    by simp
  from parse_indices_keeps_count [OF this] show "vertices_count submesh = vertices_count s" .
next
  assume "prim_indices p < 0
        \<and> parse_attributes to_u32 ByteStride model (prim_attributes p) new_SubMesh = Inr s
        \<and> map_of (prim_attributes p) ''POSITION'' = Some i
        \<and> get_attribute_size model (u32_of_int i) = Inr c \<and> to_u32 c = Inr n"
  then show "parse_primitive to_u32 ByteStride model p lg = Some (Inr (s\<lparr>vertices_count := n\<rparr>, lg))"
    by (simp add: parse_primitive_def map_at_def)
next
  assume "prim_indices p < 0 \<and> map_of (prim_attributes p) ''POSITION'' = Some i
        \<and> parse_primitive to_u32 ByteStride model p lg = Some (Inr (submesh, lg'))"
  then show "\<exists>c. get_attribute_size model (u32_of_int i) = Inr c \<and> to_u32 c = Inr (vertices_count submesh)"
    by (auto simp: parse_primitive_def map_at_def split: sum.splits)
next
  assume "prim_indices p < 0 \<and> map_of (prim_attributes p) ''POSITION'' = None"
  then show "\<exists>e. parse_primitive to_u32 ByteStride model p lg = Some (Inl e)"
    by (auto simp: parse_primitive_def map_at_def split: sum.splits)
next
  assume "prim_indices p < 0 \<and> map_of (prim_attributes p) ''POSITION'' = None"
  then show "\<forall>s. parse_attributes to_u32 ByteStride model (prim_attributes p) new_SubMesh = Inr s \<longrightarrow>
             parse_primitive to_u32 ByteStride model p lg = Some (Inl OutOfRange)"
    by (auto simp: parse_primitive_def map_at_def split: sum.splits)
qed

lemmas primitive_eval = parse_primitive_def parse_indices_def get_attribute_size_def
  get_attribute_format_def accessor_format_def get_attribute_data_def get_attribute_stride_def
  index_switch_def vec_at_def map_at_def u32_of_int_def size_t_of_int_def iterator_range_def
  tinygltf_consts format_tables example_document_def buffer_document_def declared_stride_def
  new_Buffer_def

theorem primitive_vertex_count_witness:
  "(\<exists>submesh lg'.
      parse_primitive Inr declared_stride
        (example_document TINYGLTF_COMPONENT_TYPE_UNSIGNED_BYTE 2 1 [9, 8])
        \<lparr>prim_attributes = [(''Position'', 0)], prim_indices = 0, prim_material = - 1\<rparr> []
      = Some (Inr (submesh, lg')) \<and> vertices_count submesh = 2)
   \<and> (\<exists>submesh lg'.
      parse_primitive Inr declared_stride
        (example_document TINYGLTF_COMPONENT_TYPE_UNSIGNED_BYTE 2 1 [9, 8])
        \<lparr>prim_attributes = [(''NORMAL'', 0)], prim_indices = 0, prim_material = - 1\<rparr> []
      = Some (Inr (submesh, lg')) \<and> vertices_count submesh = 0)
   \<and> (\<exists>submesh.
      parse_primitive Inr declared_stride
        (example_document TINYGLTF_COMPONENT_TYPE_UNSIGNED_BYTE 2 1 [9, 8])
        \<lparr>prim_attributes = [(''POSITION'', 0)], prim_indices = - 1, prim_material = - 1\<rparr> []
      = Some (Inr (submesh, [])) \<and> vertices_count submesh = 2)
   \<and> parse_primitive Inr declared_stride
        (example_document TINYGLTF_COMPONENT_TYPE_UNSIGNED_BYTE 2 1 [9, 8])
        \<lparr>prim_attributes = [(''NORMAL'', 0)], prim_indices = - 1, prim_material = - 1\<rparr> []
      = Some (Inl OutOfRange)"
proof (intro conjI)
  let ?doc = "example_document TINYGLTF_COMPONENT_TYPE_UNSIGNED_BYTE 2 1 [9, 8]"
  let ?p = "\<lparr>prim_attributes = [(''Position'', 0)], prim_indices = 0, prim_material = - 1\<rparr>"
  obtain submesh lg' where r: "parse_primitive Inr declared_stride ?doc ?p [] = Some (Inr (submesh, lg'))"
  proof -
    have "\<exists>submesh lg'. parse_primitive Inr declared_stride ?doc ?p [] = Some (Inr (submesh, lg'))"
      by (simp add: primitive_eval convert_data_def convert_loop.simps tolower_def Let_def new_SubMesh_def)
    then show ?thesis using that by blast
  qed
  have pos: "\<exists>a \<in> set (prim_attributes ?p). map tolower (fst a) = ''position''"
    by (simp add: tolower_def)
  from primitive_vertex_count [of ?p Inr declared_stride ?doc "[]" submesh lg'] r pos
  have "\<exists>accessor. vec_at (accessors ?doc) (size_t_of_int 0) = Inr accessor
          \<and> (Inr (acc_count accessor) :: failure + nat) = Inr (vertices_count submesh)"
    by simp
  then have "vertices_count submesh = 2"
    by (auto simp: example_document_def buffer_document_def vec_at_def)
  with r show "\<exists>submesh lg'. parse_primitive Inr declared_stride ?doc ?p [] = Some (Inr (submesh, lg'))
      \<and> vertices_count submesh = 2"
    by blast
next
  let ?doc = "example_document TINYGLTF_COMPONENT_TYPE_UNSIGNED_BYTE 2 1 [9, 8]"
  let ?p = "\<lparr>prim_attributes = [(''NORMAL'', 0)], prim_indices = 0, prim_material = - 1\<rparr>"
  obtain submesh lg' where r: "parse_primitive Inr declared_stride ?doc ?p [] = Some (Inr (submesh, lg'))"
  proof -
    have "\<exists>submesh lg'. parse_primitive Inr declared_stride ?doc ?p [] = Some (Inr (submesh, lg'))"
      by (simp add: primitive_eval convert_data_def convert_loop.simps tolower_def Let_def new_SubMesh_def)
    then show ?thesis using that by blast
  qed
  have pos: "\<not> (\<exists>a \<in> set (prim_attributes ?p). map tolower (fst a) = ''position'')"
    by (simp add: tolower_def)
  from primitive_vertex_count [of ?p Inr declared_stride ?doc "[]" submesh lg'] r pos
  have "vertices_count submesh = 0"
    by simp
  with r show "\<exists>submesh lg'. parse_primitive Inr declared_stride ?doc ?p [] = Some (Inr (submesh, lg'))
      \<and> vertices_count submesh = 0"
    by blast
next
  let ?doc = "example_document TINYGLTF_COMPONENT_TYPE_UNSIGNED_BYTE 2 1 [9, 8]"
  let ?p = "\<lparr>prim_attributes = [(''POSITION'', 0)], prim_indices = - 1, prim_material = - 1\<rparr>"
  obtain s where s: "parse_attributes Inr declared_stride ?doc (prim_attributes ?p) new_SubMesh = Inr s"
  proof -
    have "\<exists>s. parse_attributes Inr declared_stride ?doc (prim_attributes ?p) new_SubMesh = Inr s"
      by (simp add: primitive_eval tolower_def Let_def new_SubMesh_def)
    then show ?thesis using that by blast
  qed
  have g: "get_attribute_size ?doc (u32_of_int 0) = Inr 2"
    by (simp add: primitive_eval)
  from primitive_vertex_count [of ?p Inr declared_stride ?doc "[]" _ _ s 0 2 2] s g
  have "parse_primitive Inr declared_stride ?doc ?p [] = Some (Inr (s\<lparr>vertices_count := 2\<rparr>, []))"
    by simp
  then show "\<exists>submesh. parse_primitive Inr declared_stride ?doc ?p [] = Some (Inr (submesh, []))
      \<and> vertices_count submesh = 2"
    by simp
next
  let ?doc = "example_document TINYGLTF_COMPONENT_TYPE_UNSIGNED_BYTE 2 1 [9, 8]"
  let ?p = "\<lparr>prim_attributes = [(''NORMAL'', 0)], prim_indices = - 1, prim_material = - 1\<rparr>"
  have "\<exists>s. parse_attributes Inr declared_stride ?doc (prim_attributes ?p) new_SubMesh = Inr s"
    by (simp add: primitive_eval tolower_def Let_def new_SubMesh_def)
  with primitive_vertex_count [of ?p Inr declared_stride ?doc "[]"]
  show "parse_primitive Inr declared_stride ?doc ?p [] = Some (Inl OutOfRange)"
    by simp
qed

text \<open>
  Claim C5, as stated, fails: an index accessor of 32-bit floats is not one of the three
  index formats, and yet \<open>parse_primitive\<close> returns the primitive, with an index buffer
  made of the four bytes of the accessor and the error in the log.
\<close>

theorem invalid_index_format_counterexample:
  "parse_primitive Inr declared_stride
     (example_document TINYGLTF_COMPONENT_TYPE_FLOAT 1 4 [0, 0, 128, 63])
     \<lparr>prim_attributes = [], prim_indices = 0, prim_material = - 1\<rparr> []
   = Some (Inr (new_SubMesh\<lparr>vertex_indices := 1,
                  index_buffer := Some (new_Buffer VK_BUFFER_USAGE_INDEX_BUFFER_BIT [0, 0, 128, 63])\<rparr>,
                [(LOGE, ''gltf primitive has invalid format type'')]))"
  by (simp add: primitive_eval)

text \<open>
  Claim C5, amended: for a primitive whose index accessor resolves to a format other
  than the 8-, 16- and 32-bit unsigned integer, the error is logged and the construction
  goes on. The index buffer is created from the index bytes as they are, the index width
  keeps the value the attribute loop left, the primitive is returned, bound to its
  material and stored, and the loop over the primitives continues with the next one.
\<close>

theorem invalid_index_format_is_logged:
  assumes "parse_attributes to_u32 ByteStride model (prim_attributes p) new_SubMesh = Inr submesh"
    and "0 \<le> prim_indices p"
    and "get_attribute_size model (u32_of_int (prim_indices p)) = Inr c"
    and "to_u32 c = Inr n"
    and "get_attribute_format (accessors model) (u32_of_int (prim_indices p)) = Inr f"
    and "f \<noteq> VK_FORMAT_R8_UINT" and "f \<noteq> VK_FORMAT_R16_UINT" and "f \<noteq> VK_FORMAT_R32_UINT"
    and "get_attribute_data ByteStride model (u32_of_int (prim_indices p)) = Inr index_data"
    and "(if prim_material p < 0 then Inr default_material
          else vec_at materials_v (size_t_of_int (prim_material p))) = Inr material"
    and "built = submesh\<lparr>vertex_indices := n,
           index_buffer := Some (new_Buffer VK_BUFFER_USAGE_INDEX_BUFFER_BIT index_data)\<rparr>"
  shows "parse_primitive to_u32 ByteStride model p lg
           = Some (Inr (built, lg @ [(LOGE, ''gltf primitive has invalid format type'')]))
       \<and> index_type built = index_type submesh
       \<and> load_primitives to_u32 ByteStride model materials_v default_material (p # rest) mesh st
           = load_primitives to_u32 ByteStride model materials_v default_material rest
               (mesh\<lparr>sg_mesh_submeshes := sg_mesh_submeshes mesh @ [length (c_SubMesh st)]\<rparr>)
               (st\<lparr>messages := messages st @ [(LOGE, ''gltf primitive has invalid format type'')],
                   c_SubMesh := c_SubMesh st @ [built\<lparr>submesh_material := Some material\<rparr>]\<rparr>)"
proof -
  have sw: "index_switch to_u32 f index_data (submesh\<lparr>vertex_indices := n\<rparr>) l
      = Some (Inr (index_data, submesh\<lparr>vertex_indices := n\<rparr>,
                   l @ [(LOGE, ''gltf primitive has invalid format type'')]))" for l
    using assms(6-8) by (simp add: index_switch_def)
  have pp: "parse_primitive to_u32 ByteStride model p l
      = Some (Inr (built, l @ [(LOGE, ''gltf primitive has invalid format type'')]))" for l
    using assms(1-5,9,11) by (simp add: parse_primitive_def parse_indices_def sw)
  show ?thesis
    using assms(10,11) by (simp add: pp)
qed

theorem invalid_index_format_is_logged_witness:
  "load_primitives Inr declared_stride
     (example_document TINYGLTF_COMPONENT_TYPE_FLOAT 1 4 [0, 0, 128, 63]) [] 0
     [\<lparr>prim_attributes = [], prim_indices = 0, prim_material = - 1\<rparr>]
     (parse_mesh \<lparr>mesh_name = ''m'', primitives = []\<rparr>) new_Scene
   = Some (Inr ((parse_mesh \<lparr>mesh_name = ''m'', primitives = []\<rparr>)\<lparr>sg_mesh_submeshes := [0]\<rparr>,
        new_Scene\<lparr>messages := [(LOGE, ''gltf primitive has invalid format type'')],
          c_SubMesh := [new_SubMesh\<lparr>vertex_indices := 1,
             index_buffer := Some (new_Buffer VK_BUFFER_USAGE_INDEX_BUFFER_BIT [0, 0, 128, 63]),
             submesh_material := Some 0\<rparr>]\<rparr>))"
  using invalid_index_format_is_logged [of Inr declared_stride
      "example_document TINYGLTF_COMPONENT_TYPE_FLOAT 1 4 [0, 0, 128, 63]"
      "\<lparr>prim_attributes = [], prim_indices = 0, prim_material = - 1\<rparr>"
      new_SubMesh 1 1 VK_FORMAT_R32_SFLOAT "[0, 0, 128, 63]" 0 "[]" 0 _
      "[]" "[]" "parse_mesh \<lparr>mesh_name = ''m'', primitives = []\<rparr>" new_Scene]
  by (simp add: primitive_eval new_Scene_def parse_mesh_def)

lemma traverse_no_error:
  assumes "traverse M nv q st = Some r"
    and "\<forall>e \<in> set q. size_t_of_int (snd e) < length M"
    and "\<forall>n \<in> set M. \<forall>c \<in> set (node_children n). size_t_of_int c < length M"
    and "length M \<le> length nv"
  shows "\<exists>st'. r = Inr st'"
  using assms
proof (induction M nv q st r rule: traverse.raw_induct [rotated 1, consumes 1])
  case (1 traverse M nv q st r)
  have body: "(case q of [] \<Rightarrow> Some (Inr st)
      | node_it # queue \<Rightarrow>
          case vec_at nv (size_t_of_int (snd node_it)) of
            Inl e \<Rightarrow> Some (Inl e)
          | Inr current_node \<Rightarrow>
              let root_node = fst node_it;
                  st1 = add_child root_node current_node (set_parent current_node root_node st)
              in if size_t_of_int (snd node_it) < length M
                 then traverse M nv
                        (queue @ map (Pair root_node) (node_children (M ! size_t_of_int (snd node_it))))
                        st1
                 else Some (Inl UndefinedBehaviour)) = Some r" by fact
  have vq: "\<forall>e \<in> set q. size_t_of_int (snd e) < length M" by fact
  have vc: "\<forall>n \<in> set M. \<forall>c \<in> set (node_children n). size_t_of_int c < length M" by fact
  have len: "length M \<le> length nv" by fact
  show ?case
  proof (cases q)
    case Nil
    with body show ?thesis by auto
  next
    case (Cons node_it queue)
    let ?i = "size_t_of_int (snd node_it)"
    from Cons vq have i: "?i < length M" by simp
    with len have v: "vec_at nv ?i = Inr (nv ! ?i)" by (simp add: vec_at_def)
    let ?q' = "queue @ map (Pair (fst node_it)) (node_children (M ! ?i))"
    let ?st1 = "add_child (fst node_it) (nv ! ?i) (set_parent (nv ! ?i) (fst node_it) st)"
    from body Cons v i have rec: "traverse M nv ?q' ?st1 = Some r"
      by (simp add: Let_def)
    have "M ! ?i \<in> set M" using i by simp
    with vc have "\<forall>c \<in> set (node_children (M ! ?i)). size_t_of_int c < length M" by blast
    with Cons vq have q': "\<forall>e \<in> set ?q'. size_t_of_int (snd e) < length M" by auto
    from "1.IH" [OF rec q' vc len] show ?thesis .
  qed
qed

lemma traverse_cycle_returns_nothing:
  assumes "traverse M nv q st = Some r"
    and "\<forall>e \<in> set q. size_t_of_int (snd e) < length M"
    and "\<forall>n \<in> set M. \<forall>c \<in> set (node_children n). size_t_of_int c < length M"
    and "length M \<le> length nv"
    and "\<exists>e \<in> set q. snd e \<in> B"
    and "\<forall>i \<in> B. \<exists>c \<in> set (node_children (M ! size_t_of_int i)). c \<in> B"
  shows False
  using assms
proof (induction M nv q st r rule: traverse.raw_induct [rotated 1, consumes 1])
  case (1 traverse M nv q st r)
  have body: "(case q of [] \<Rightarrow> Some (Inr st)
      | node_it # queue \<Rightarrow>
          case vec_at nv (size_t_of_int (snd node_it)) of
            Inl e \<Rightarrow> Some (Inl e)
          | Inr current_node \<Rightarrow>
              let root_node = fst node_it;
                  st1 = add_child root_node current_node (set_parent current_node root_node st)
              in if size_t_of_int (snd node_it) < length M
                 then traverse M nv
                        (queue @ map (Pair root_node) (node_children (M ! size_t_of_int (snd node_it))))
                        st1
                 else Some (Inl UndefinedBehaviour)) = Some r" by fact
  have vq: "\<forall>e \<in> set q. size_t_of_int (snd e) < length M" by fact
  have vc: "\<forall>n \<in> set M. \<forall>c \<in> set (node_children n). size_t_of_int c < length M" by fact
  have len: "length M \<le> length nv" by fact
  have inB: "\<exists>e \<in> set q. snd e \<in> B" by fact
  have closed: "\<forall>i \<in> B. \<exists>c \<in> set (node_children (M ! size_t_of_int i)). c \<in> B" by fact
  show ?case
  proof (cases q)
    case Nil
    with inB show ?thesis by simp
  next
    case (Cons node_it queue)
    let ?i = "size_t_of_int (snd node_it)"
    from Cons vq have i: "?i < length M" by simp
    with len have v: "vec_at nv ?i = Inr (nv ! ?i)" by (simp add: vec_at_def)
    let ?q' = "queue @ map (Pair (fst node_it)) (node_children (M ! ?i))"
    let ?st1 = "add_child (fst node_it) (nv ! ?i) (set_parent (nv ! ?i) (fst node_it) st)"
    from body Cons v i have rec: "traverse M nv ?q' ?st1 = Some r"
      by (simp add: Let_def)
    have "M ! ?i \<in> set M" using i by simp
    with vc have "\<forall>c \<in> set (node_children (M ! ?i)). size_t_of_int c < length M" by blast
    with Cons vq have q': "\<forall>e \<in> set ?q'. size_t_of_int (snd e) < length M" by auto
    have b': "\<exists>e \<in> set ?q'. snd e \<in> B"
    proof (cases "snd node_it \<in> B")
      case True
      with closed obtain c where "c \<in> set (node_children (M ! ?i))" "c \<in> B" by blast
      then show ?thesis by force
    next
      case False
      with inB Cons show ?thesis by auto
    qed
    from "1.IH" [OF rec q' vc len b' closed] show ?thesis .
  qed
qed

text \<open>
  The traversal returns when the declarations admit a ranking: a weight for every node that
  exceeds the sum of the weights of its declared children. A document without a cycle has
  one, also when a node is declared as the child of several parents.
\<close>

lemma traverse_returns:
  assumes "\<forall>e \<in> set q. size_t_of_int (snd e) < length M"
    and "\<forall>n \<in> set M. \<forall>c \<in> set (node_children n). size_t_of_int c < length M"
    and "length M \<le> length nv"
    and "\<forall>i < length M. sum_list (map (\<lambda>c. w (size_t_of_int c)) (node_children (M ! i))) < (w i :: nat)"
  shows "\<exists>st'. traverse M nv q st = Some (Inr st')"
  using assms(1)
proof (induction "sum_list (map (\<lambda>e. w (size_t_of_int (snd e))) q)" arbitrary: q st rule: less_induct)
  case less
  show ?case
  proof (cases q)
    case Nil
    then show ?thesis by (subst traverse.simps) simp
  next
    case (Cons node_it queue)
    let ?i = "size_t_of_int (snd node_it)"
    from Cons less.prems have i: "?i < length M" by simp
    with assms(3) have v: "vec_at nv ?i = Inr (nv ! ?i)" by (simp add: vec_at_def)
    let ?q' = "queue @ map (Pair (fst node_it)) (node_children (M ! ?i))"
    let ?st1 = "add_child (fst node_it) (nv ! ?i) (set_parent (nv ! ?i) (fst node_it) st)"
    have step: "traverse M nv q st = traverse M nv ?q' ?st1"
      by (subst traverse.simps) (simp add: Cons v i Let_def)
    have "M ! ?i \<in> set M" using i by simp
    with assms(2) have "\<forall>c \<in> set (node_children (M ! ?i)). size_t_of_int c < length M" by blast
    with Cons less.prems have q': "\<forall>e \<in> set ?q'. size_t_of_int (snd e) < length M" by auto
    have "sum_list (map (\<lambda>e. w (size_t_of_int (snd e))) ?q')
        = sum_list (map (\<lambda>e. w (size_t_of_int (snd e))) queue)
          + sum_list (map (\<lambda>c. w (size_t_of_int c)) (node_children (M ! ?i)))"
      by (simp add: o_def)
    also have "\<dots> < sum_list (map (\<lambda>e. w (size_t_of_int (snd e))) queue) + w ?i"
      using assms(4) i by simp
    also have "\<dots> = sum_list (map (\<lambda>e. w (size_t_of_int (snd e))) q)"
      by (simp add: Cons)
    finally have m: "sum_list (map (\<lambda>e. w (size_t_of_int (snd e))) ?q')
        < sum_list (map (\<lambda>e. w (size_t_of_int (snd e))) q)" .
    from less.hyps [OF m q', of ?st1] show ?thesis
      unfolding step .
  qed
qed

text \<open>
  Claim C6, as stated, fails: in the document with the roots \<open>[0, 2]\<close> where node 0 and
  node 2 both declare node 1 as their child, nothing is rejected. \<open>load_scene\<close> returns a
  scene in which node 1 has been attached twice, once for each declaration.
\<close>

theorem duplicate_parent_counterexample:
  "on_result hierarchy
     (load_scene Inr declared_stride
        (graph_document [plain_node [1], plain_node [], plain_node [1]]
           [\<lparr>gltf_scene_name = ''scene'', gltf_scene_nodes = [0, 2]\<rparr>]))
   = Some (Inr [(Some 3, []), (Some 3, []), (Some 3, []), (None, [0, 2, 1, 1]), (None, [])])"
proof -
  define ns where "ns = [plain_node [1], plain_node [], plain_node [1]]"
  define st6 where "st6 = graph_base\<lparr>node_store := [new_Node [], new_Node [], new_Node []]\<rparr>"
  define st7 where "st7 = st6\<lparr>node_store :=
      [(new_Node [])\<lparr>parent := Some 3\<rparr>, (new_Node [])\<lparr>parent := Some 3\<rparr>,
       (new_Node [])\<lparr>parent := Some 3\<rparr>,
       (new_Node ''scene'')\<lparr>children := [0, 2, 1, 1]\<rparr>],
      scene_children := [3]\<rparr>"
  have n: "load_nodes [] ns [] graph_base = Inr ([0, 1, 2], st6)"
    by (simp add: ns_def st6_def graph_base_def new_Scene_def load_node_def plain_node_def
          make_Node_def new_Node_def numeral_eq_Suc)
  have s: "load_scenes ns [\<lparr>gltf_scene_name = ''scene'', gltf_scene_nodes = [0, 2]\<rparr>] [0, 1, 2] st6
      = Some (Inr ([0, 1, 2, 3], st7))"
    by (simp add: ns_def st6_def st7_def graph_base_def new_Scene_def graph_eval numeral_eq_Suc)
  obtain X where X: "add_default_camera (scene_set_nodes [0, 1, 2, 3] st7) = Inr X"
    and hX: "hierarchy X = hierarchy (scene_set_nodes [0, 1, 2, 3] st7) @ [(None, [])]"
    using add_default_camera_hierarchy by blast
  have h7: "hierarchy (scene_set_nodes [0, 1, 2, 3] st7)
      = [(Some 3, []), (Some 3, []), (Some 3, []), (None, [0, 2, 1, 1])]"
    by (simp add: hierarchy_def scene_set_nodes_def st7_def new_Node_def)
  have full: "load_scene Inr declared_stride
      (graph_document ns [\<lparr>gltf_scene_name = ''scene'', gltf_scene_nodes = [0, 2]\<rparr>]) = Some (Inr X)"
    by (simp only: load_scene_graph_document n s X sum.case prod.case option.case)
  show ?thesis
    using h7 by (simp add: full [unfolded ns_def] on_result_def hX)
qed

text \<open>
  Claim C6, amended: the Graph Builder rejects neither a duplicate parent nor a cycle.
  When every node index that is queued or declared as a child lies inside the node
  collection, the traversal reports no error, whatever the parent and child declarations
  are: if it returns, it returns a tree; when the queue holds a node from which a
  parent/child cycle can be reached (a set \<open>B\<close> of nodes each of which declares a child
  in \<open>B\<close>), it does not return; and when the declarations admit a ranking \<open>w\<close>
  (every node outweighs the sum of its declared children, which excludes cycles and allows
  duplicate parents), it returns a tree.
\<close>

theorem graph_builder_rejects_nothing:
  assumes "\<forall>e \<in> set q. size_t_of_int (snd e) < length M"
    and "\<forall>n \<in> set M. \<forall>c \<in> set (node_children n). size_t_of_int c < length M"
    and "length M \<le> length nv"
  shows "(\<forall>r. traverse M nv q st = Some r \<longrightarrow> (\<exists>st'. r = Inr st'))
       \<and> ((\<exists>e \<in> set q. snd e \<in> B)
            \<and> (\<forall>i \<in> B. \<exists>c \<in> set (node_children (M ! size_t_of_int i)). c \<in> B)
          \<longrightarrow> traverse M nv q st = None)
       \<and> ((\<forall>i < length M.
              sum_list (map (\<lambda>c. w (size_t_of_int c)) (node_children (M ! i))) < (w i :: nat))
          \<longrightarrow> (\<exists>st'. traverse M nv q st = Some (Inr st')))"
proof (intro conjI allI impI)
  fix r assume "traverse M nv q st = Some r"
  from traverse_no_error [OF this assms] show "\<exists>st'. r = Inr st'" .
next
  assume "\<forall>i < length M.
      sum_list (map (\<lambda>c. w (size_t_of_int c)) (node_children (M ! i))) < w i"
  from traverse_returns [OF assms this] show "\<exists>st'. traverse M nv q st = Some (Inr st')" .
next
  assume b: "(\<exists>e \<in> set q. snd e \<in> B)
            \<and> (\<forall>i \<in> B. \<exists>c \<in> set (node_children (M ! size_t_of_int i)). c \<in> B)"
  show "traverse M nv q st = None"
  proof (cases "traverse M nv q st")
    case None
    then show ?thesis .
  next
    case (Some r)
    from traverse_cycle_returns_nothing [OF Some assms] b show ?thesis by blast
  qed
qed


theorem graph_builder_rejects_nothing_witness:
  "(\<exists>st'. traverse [plain_node [1], plain_node [], plain_node [1]] [0, 1, 2] [(3, 0), (3, 2)]
            (graph_base\<lparr>node_store := [new_Node [], new_Node [], new_Node [], new_Node []]\<rparr>)
          = Some (Inr st'))
   \<and> traverse [plain_node [0]] [0] [(1, 0)]
            (graph_base\<lparr>node_store := [new_Node [], new_Node []]\<rparr>) = None"
proof
  let ?M = "[plain_node [1], plain_node [], plain_node [1]]"
  let ?st = "graph_base\<lparr>node_store := [new_Node [], new_Node [], new_Node [], new_Node []]\<rparr>"
  show "\<exists>st'. traverse ?M [0, 1, 2] [(3, 0), (3, 2)] ?st = Some (Inr st')"
    using graph_builder_rejects_nothing [where q = "[(3, 0), (3, 2)]" and M = ?M
        and nv = "[0, 1, 2]" and st = ?st and B = "{}" and w = "\<lambda>i. if i = 1 then 1 else 2"]
    by (simp add: plain_node_def less_Suc_eq numeral_eq_Suc)
next
  show "traverse [plain_node [0]] [0] [(1, 0)]
            (graph_base\<lparr>node_store := [new_Node [], new_Node []]\<rparr>) = None"
    using graph_builder_rejects_nothing [of "[(1, 0)]" "[plain_node [0]]" "[0]"
        "graph_base\<lparr>node_store := [new_Node [], new_Node []]\<rparr>" "{0}"]
    by (simp add: plain_node_def)
qed

subsection \<open>What each stage of \<open>load_scene\<close> leaves alone\<close>

lemma load_texture_frame:
  "load_texture iv sv d t st = Inr st' \<Longrightarrow>
     c_Sampler st' = c_Sampler st \<and> c_Camera st' = c_Camera st"
  by (auto simp: load_texture_def Let_def split: sum.splits if_splits)

lemma load_textures_frame:
  "load_textures iv sv d ts st = Inr st' \<Longrightarrow>
     c_Sampler st' = c_Sampler st \<and> c_Camera st' = c_Camera st"
proof (induction ts arbitrary: st)
  case Nil
  then show ?case by simp
next
  case (Cons t ts)
  then show ?case
    by (auto split: sum.splits dest!: load_texture_frame)
qed

lemma load_materials_frame:
  "load_materials tv ms st = Inr st' \<Longrightarrow>
     c_Sampler st' = c_Sampler st \<and> c_Camera st' = c_Camera st \<and> c_Texture st' = c_Texture st"
proof (induction ms arbitrary: st)
  case Nil
  then show ?case by simp
next
  case (Cons m ms)
  from Cons.prems obtain mat where
    "load_materials tv ms (st\<lparr>c_PBRMaterial := c_PBRMaterial st @ [mat]\<rparr>) = Inr st'"
    by (auto split: sum.splits)
  from Cons.IH [OF this] show ?case by simp
qed

lemma load_primitives_frame:
  "load_primitives to_u32 ByteStride model mv dm ps mesh st = Some (Inr (mesh', st')) \<Longrightarrow>
     c_Sampler st' = c_Sampler st \<and> c_Camera st' = c_Camera st \<and> c_Texture st' = c_Texture st"
proof (induction ps arbitrary: mesh st)
  case Nil
  then show ?case by simp
next
  case (Cons p ps)
  from Cons.prems obtain mesh1 st1 where
    r: "load_primitives to_u32 ByteStride model mv dm ps mesh1 st1 = Some (Inr (mesh', st'))"
    and k: "c_Sampler st1 = c_Sampler st \<and> c_Camera st1 = c_Camera st \<and> c_Texture st1 = c_Texture st"
    by (auto split: option.splits sum.splits)
  from Cons.IH [OF r] k show ?case by simp
qed

lemma load_meshes_frame:
  "load_meshes to_u32 ByteStride model mv dm ms st = Some (Inr st') \<Longrightarrow>
     c_Sampler st' = c_Sampler st \<and> c_Camera st' = c_Camera st \<and> c_Texture st' = c_Texture st"
proof (induction ms arbitrary: st)
  case Nil
  then show ?case by simp
next
  case (Cons m ms)
  from Cons.prems obtain mesh1 st1 where
    p: "load_primitives to_u32 ByteStride model mv dm (primitives m) (parse_mesh m) st = Some (Inr (mesh1, st1))"
    and r: "load_meshes to_u32 ByteStride model mv dm ms (st1\<lparr>c_Mesh := c_Mesh st1 @ [mesh1]\<rparr>) = Some (Inr st')"
    by (auto split: option.splits sum.splits)
  from Cons.IH [OF r] load_primitives_frame [OF p] show ?case by simp
qed

lemma parse_camera_log: "fst (parse_camera c lg) = fst (parse_camera c [])"
  by (simp add: parse_camera_def)

lemma load_cameras_frame:
  "c_Sampler (load_cameras cams st) = c_Sampler st
   \<and> c_Texture (load_cameras cams st) = c_Texture st
   \<and> c_Camera (load_cameras cams st) = c_Camera st @ document_cameras cams"
proof (induction cams arbitrary: st)
  case Nil
  then show ?case by (simp add: document_cameras_def List.map_filter_simps)
next
  case (Cons c cams)
  obtain cam lg where p: "parse_camera c (messages st) = (cam, lg)" by (cases "parse_camera c (messages st)")
  then have f: "fst (parse_camera c []) = cam"
    using parse_camera_log [of c "messages st"] by simp
  show ?case
    using Cons.IH [of "add_camera_component cam (st\<lparr>messages := lg\<rparr>)"]
    by (cases cam) (simp_all add: p f add_camera_component_def document_cameras_def List.map_filter_simps)
qed

lemma map_without_node_update:
  "i < length cs \<Longrightarrow> map without_node (cs[i := (cs ! i)\<lparr>sg_camera_node := x\<rparr>]) = map without_node cs"
  by (simp add: map_update without_node_def list_update_same_conv)

lemma load_node_frame:
  "load_node mv n nv st = Inr (nv', st') \<Longrightarrow>
     c_Sampler st' = c_Sampler st \<and> c_Texture st' = c_Texture st
     \<and> map without_node (c_Camera st') = map without_node (c_Camera st)"
  by (auto simp: load_node_def make_Node_def update_node_def vec_at_def get_components_def
        map_without_node_update split: sum.splits if_splits)

lemma load_nodes_frame:
  "load_nodes mv ns nv st = Inr (nv', st') \<Longrightarrow>
     c_Sampler st' = c_Sampler st \<and> c_Texture st' = c_Texture st
     \<and> map without_node (c_Camera st') = map without_node (c_Camera st)"
proof (induction ns arbitrary: nv st)
  case Nil
  then show ?case by simp
next
  case (Cons n ns)
  from Cons.prems obtain nv1 st1 where
    a: "load_node mv n nv st = Inr (nv1, st1)" and r: "load_nodes mv ns nv1 st1 = Inr (nv', st')"
    by (auto split: sum.splits)
  from Cons.IH [OF r] load_node_frame [OF a] show ?case by simp
qed

lemma traverse_frame:
  assumes "traverse M nv q st = Some r"
  shows "\<forall>st'. r = Inr st' \<longrightarrow>
     c_Sampler st' = c_Sampler st \<and> c_Texture st' = c_Texture st \<and> c_Camera st' = c_Camera st"
  using assms
proof (induction M nv q st r rule: traverse.raw_induct [rotated 1, consumes 1])
  case (1 traverse M nv q st r)
  have body: "(case q of [] \<Rightarrow> Some (Inr st)
      | node_it # queue \<Rightarrow>
          case vec_at nv (size_t_of_int (snd node_it)) of
            Inl e \<Rightarrow> Some (Inl e)
          | Inr current_node \<Rightarrow>
              let root_node = fst node_it;
                  st1 = add_child root_node current_node (set_parent current_node root_node st)
              in if size_t_of_int (snd node_it) < length M
                 then traverse M nv
                        (queue @ map (Pair root_node) (node_children (M ! size_t_of_int (snd node_it))))
                        st1
                 else Some (Inl UndefinedBehaviour)) = Some r" by fact
  show ?case
  proof (cases q)
    case Nil
    with body show ?thesis by auto
  next
    case (Cons node_it queue)
    show ?thesis
    proof (cases "vec_at nv (size_t_of_int (snd node_it))")
      case (Inl e)
      with body Cons show ?thesis by auto
    next
      case (Inr current_node)
      show ?thesis
      proof (cases "size_t_of_int (snd node_it) < length M")
        case True
        let ?st1 = "add_child (fst node_it) current_node (set_parent current_node (fst node_it) st)"
        from body Cons Inr True have
          "traverse M nv (queue @ map (Pair (fst node_it)) (node_children (M ! size_t_of_int (snd node_it)))) ?st1 = Some r"
          by (simp add: Let_def)
        from "1.IH" [OF this] show ?thesis
          by (simp add: add_child_def set_parent_def update_node_def)
      next
        case False
        with body Cons Inr show ?thesis by (auto simp: Let_def)
      qed
    qed
  qed
qed

lemma load_scenes_Cons:
  "load_scenes M (s # ss) nv st =
    (case traverse M nv (map (Pair (length (node_store st))) (gltf_scene_nodes s))
            (st\<lparr>node_store := node_store st @ [new_Node (gltf_scene_name s)]\<rparr>) of
       None \<Rightarrow> None
     | Some (Inl e) \<Rightarrow> Some (Inl e)
     | Some (Inr st2) \<Rightarrow>
         load_scenes M ss (nv @ [length (node_store st)])
           (scene_add_child (length (node_store st)) st2))"
  by (simp only: load_scenes.simps make_Node_def Let_def prod.case)

lemma load_scenes_frame:
  "load_scenes M ss nv st = Some (Inr (nv', st')) \<Longrightarrow>
     c_Sampler st' = c_Sampler st \<and> c_Texture st' = c_Texture st \<and> c_Camera st' = c_Camera st"
proof (induction ss arbitrary: nv st)
  case Nil
  then show ?case by simp
next
  case (Cons s ss)
  let ?root = "length (node_store st)"
  let ?st1 = "st\<lparr>node_store := node_store st @ [new_Node (gltf_scene_name s)]\<rparr>"
  show ?case
  proof (cases "traverse M nv (map (Pair ?root) (gltf_scene_nodes s)) ?st1")
    case None
    with Cons.prems have False by (simp only: load_scenes_Cons option.case option.distinct)
    then show ?thesis ..
  next
    case (Some x)
    show ?thesis
    proof (cases x)
      case (Inl e)
      with Some Cons.prems have False
        by (simp only: load_scenes_Cons option.case sum.case option.inject sum.distinct)
      then show ?thesis ..
    next
      case (Inr st2)
      with Some Cons.prems have r:
        "load_scenes M ss (nv @ [?root]) (scene_add_child ?root st2) = Some (Inr (nv', st'))"
        by (simp only: load_scenes_Cons option.case sum.case)
      from Some Inr have t: "traverse M nv (map (Pair ?root) (gltf_scene_nodes s)) ?st1 = Some (Inr st2)"
        by simp
      from traverse_frame [OF t] have k:
        "c_Sampler st2 = c_Sampler st \<and> c_Texture st2 = c_Texture st \<and> c_Camera st2 = c_Camera st"
        by simp
      from Cons.IH [OF r] have
        "c_Sampler st' = c_Sampler st2 \<and> c_Texture st' = c_Texture st2 \<and> c_Camera st' = c_Camera st2"
        by (simp add: scene_add_child_def)
      with k show ?thesis by simp
    qed
  qed
qed

lemma create_default_material_total:
  "create_default_material = Inr (new_PBRMaterial [])"
  by (simp add: create_default_material_def parse_material_def)

lemma load_scene_stages:
  assumes "load_scene to_u32 ByteStride model = Some (Inr sc)"
  shows "\<exists>st1 st3 st4 nv st6 nv1 st7.
      load_textures (get_components (map parse_image (images model)))
        (get_components (map parse_sampler (samplers model))) (length (samplers model))
        (textures model)
        (new_Scene\<lparr>c_Sampler := map parse_sampler (samplers model),
                    c_Image := map parse_image (images model)\<rparr>) = Inr st1
    \<and> load_materials (get_components (c_Texture st1)) (materials model)
        (st1\<lparr>c_Sampler := c_Sampler st1 @ [create_default_sampler]\<rparr>) = Inr st3
    \<and> load_meshes to_u32 ByteStride model (get_components (c_PBRMaterial st3))
        (length (c_PBRMaterial st3)) (meshes model) st3 = Some (Inr st4)
    \<and> load_nodes
        (get_components (c_Mesh (load_cameras (cameras model) (st4\<lparr>c_PBRMaterial := c_PBRMaterial st4 @ [new_PBRMaterial []]\<rparr>))))
        (nodes model) []
        (load_cameras (cameras model) (st4\<lparr>c_PBRMaterial := c_PBRMaterial st4 @ [new_PBRMaterial []]\<rparr>))
      = Inr (nv, st6)
    \<and> load_scenes (nodes model) (scenes model) nv st6 = Some (Inr (nv1, st7))
    \<and> add_default_camera (scene_set_nodes nv1 st7) = Inr sc"
  using assms unfolding load_scene_def Let_def create_default_material_total
  by (clarsimp split: sum.splits option.splits prod.splits)


subsection \<open>Default camera\<close>

lemma add_default_camera_total:
  "add_default_camera st = Inr (with_default_camera st)"
  by (simp add: add_default_camera_def with_default_camera_def make_Node_def
        create_default_camera_def parse_camera_def default_camera_at_def add_camera_component_def
        scene_add_child_def scene_add_node_def update_node_def new_Node_def)

lemma without_node_document_cameras:
  "map without_node (document_cameras cams) = document_cameras cams"
  by (induction cams)
     (simp_all add: document_cameras_def List.map_filter_simps parse_camera_def without_node_def)

lemma load_scene_from_stages:
  assumes "load_textures (get_components (map parse_image (images model)))
        (get_components (map parse_sampler (samplers model))) (length (samplers model))
        (textures model)
        (new_Scene\<lparr>c_Sampler := map parse_sampler (samplers model),
                    c_Image := map parse_image (images model)\<rparr>) = Inr st1"
    and "load_materials (get_components (c_Texture st1)) (materials model)
        (st1\<lparr>c_Sampler := c_Sampler st1 @ [create_default_sampler]\<rparr>) = Inr st3"
    and "load_meshes to_u32 ByteStride model (get_components (c_PBRMaterial st3))
        (length (c_PBRMaterial st3)) (meshes model) st3 = Some (Inr st4)"
    and "load_nodes
        (get_components (c_Mesh (load_cameras (cameras model) (st4\<lparr>c_PBRMaterial := c_PBRMaterial st4 @ [new_PBRMaterial []]\<rparr>))))
        (nodes model) []
        (load_cameras (cameras model) (st4\<lparr>c_PBRMaterial := c_PBRMaterial st4 @ [new_PBRMaterial []]\<rparr>))
      = Inr (nv, st6)"
    and "load_scenes (nodes model) (scenes model) nv st6 = Some (Inr (nv1, st7))"
  shows "load_scene to_u32 ByteStride model = Some (Inr (with_default_camera (scene_set_nodes nv1 st7)))"
  unfolding load_scene_def Let_def create_default_material_total
  using assms by (simp add: add_default_camera_total)

text \<open>
  Claim C7: whenever \<open>load_scene\<close> returns a scene, its cameras are the perspective
  cameras of the document followed by the default camera (aspect ratio 1.77, vertical
  field of view 1.0, near plane 0.1, far plane 1000.0); the default camera belongs to a
  node named \<open>default_camera\<close>, which holds it, and this node is the last root of the scene
  and the last node the scene owns. The last step cannot fail: as soon as the stages
  that read the document have returned, \<open>load_scene\<close> returns the scene with the default
  camera.
\<close>

theorem default_camera_invariant:
  "(load_scene to_u32 ByteStride model = Some (Inr sc) \<longrightarrow>
      (\<exists>cs a. c_Camera sc = cs @ [default_camera_at a]
         \<and> map without_node cs = document_cameras (cameras model)
         \<and> a < length (node_store sc)
         \<and> sg_node_name (node_store sc ! a) = ''default_camera''
         \<and> sg_node_camera (node_store sc ! a) = Some (length cs)
         \<and> scene_children sc \<noteq> [] \<and> last (scene_children sc) = a
         \<and> scene_nodes sc \<noteq> [] \<and> last (scene_nodes sc) = a))
   \<and> (load_textures (get_components (map parse_image (images model)))
        (get_components (map parse_sampler (samplers model))) (length (samplers model))
        (textures model)
        (new_Scene\<lparr>c_Sampler := map parse_sampler (samplers model),
                    c_Image := map parse_image (images model)\<rparr>) = Inr st1
      \<and> load_materials (get_components (c_Texture st1)) (materials model)
        (st1\<lparr>c_Sampler := c_Sampler st1 @ [create_default_sampler]\<rparr>) = Inr st3
      \<and> load_meshes to_u32 ByteStride model (get_components (c_PBRMaterial st3))
        (length (c_PBRMaterial st3)) (meshes model) st3 = Some (Inr st4)
      \<and> load_nodes
        (get_components (c_Mesh (load_cameras (cameras model)
           (st4\<lparr>c_PBRMaterial := c_PBRMaterial st4 @ [new_PBRMaterial []]\<rparr>))))
        (nodes model) []
        (load_cameras (cameras model) (st4\<lparr>c_PBRMaterial := c_PBRMaterial st4 @ [new_PBRMaterial []]\<rparr>))
        = Inr (nv, st6)
      \<and> load_scenes (nodes model) (scenes model) nv st6 = Some (Inr (nv1, st7)) \<longrightarrow>
      load_scene to_u32 ByteStride model = Some (Inr (with_default_camera (scene_set_nodes nv1 st7))))"
proof (intro conjI impI)
  assume r: "load_scene to_u32 ByteStride model = Some (Inr sc)"
  from load_scene_stages [OF r] obtain st1 st3 st4 nv st6 nv1 st7 where
    1: "load_textures (get_components (map parse_image (images model)))
        (get_components (map parse_sampler (samplers model))) (length (samplers model))
        (textures model)
        (new_Scene\<lparr>c_Sampler := map parse_sampler (samplers model),
                    c_Image := map parse_image (images model)\<rparr>) = Inr st1"
    and 3: "load_materials (get_components (c_Texture st1)) (materials model)
        (st1\<lparr>c_Sampler := c_Sampler st1 @ [create_default_sampler]\<rparr>) = Inr st3"
    and 4: "load_meshes to_u32 ByteStride model (get_components (c_PBRMaterial st3))
        (length (c_PBRMaterial st3)) (meshes model) st3 = Some (Inr st4)"
    and 6: "load_nodes
        (get_components (c_Mesh (load_cameras (cameras model) (st4\<lparr>c_PBRMaterial := c_PBRMaterial st4 @ [new_PBRMaterial []]\<rparr>))))
        (nodes model) []
        (load_cameras (cameras model) (st4\<lparr>c_PBRMaterial := c_PBRMaterial st4 @ [new_PBRMaterial []]\<rparr>))
      = Inr (nv, st6)"
    and 7: "load_scenes (nodes model) (scenes model) nv st6 = Some (Inr (nv1, st7))"
    and 8: "add_default_camera (scene_set_nodes nv1 st7) = Inr sc"
    by blast
  have c1: "c_Camera st1 = []"
    using load_textures_frame [OF 1] by (simp add: new_Scene_def)
  have c3: "c_Camera st3 = []"
    using load_materials_frame [OF 3] c1 by simp
  have c4: "c_Camera st4 = []"
    using load_meshes_frame [OF 4] c3 by simp
  have c5: "c_Camera (load_cameras (cameras model) (st4\<lparr>c_PBRMaterial := c_PBRMaterial st4 @ [new_PBRMaterial []]\<rparr>))
      = document_cameras (cameras model)"
    using load_cameras_frame [of "cameras model" "st4\<lparr>c_PBRMaterial := c_PBRMaterial st4 @ [new_PBRMaterial []]\<rparr>"] c4
    by simp
  have c6: "map without_node (c_Camera st6) = document_cameras (cameras model)"
    using load_nodes_frame [OF 6] c5 by (simp add: without_node_document_cameras)
  have c7: "c_Camera st7 = c_Camera st6"
    using load_scenes_frame [OF 7] by simp
  from 8 have sc: "sc = with_default_camera (scene_set_nodes nv1 st7)"
    by (simp add: add_default_camera_total)
  let ?a = "length (node_store st7)"
  have "c_Camera sc = c_Camera st7 @ [default_camera_at ?a]
      \<and> map without_node (c_Camera st7) = document_cameras (cameras model)
      \<and> ?a < length (node_store sc)
      \<and> sg_node_name (node_store sc ! ?a) = ''default_camera''
      \<and> sg_node_camera (node_store sc ! ?a) = Some (length (c_Camera st7))
      \<and> scene_children sc \<noteq> [] \<and> last (scene_children sc) = ?a
      \<and> scene_nodes sc \<noteq> [] \<and> last (scene_nodes sc) = ?a"
    unfolding sc using c6 c7
    by (simp add: with_default_camera_def scene_set_nodes_def)
  then show "\<exists>cs a. c_Camera sc = cs @ [default_camera_at a]
         \<and> map without_node cs = document_cameras (cameras model)
         \<and> a < length (node_store sc)
         \<and> sg_node_name (node_store sc ! a) = ''default_camera''
         \<and> sg_node_camera (node_store sc ! a) = Some (length cs)
         \<and> scene_children sc \<noteq> [] \<and> last (scene_children sc) = a
         \<and> scene_nodes sc \<noteq> [] \<and> last (scene_nodes sc) = a"
    by blast
next
  assume "load_textures (get_components (map parse_image (images model)))
        (get_components (map parse_sampler (samplers model))) (length (samplers model))
        (textures model)
        (new_Scene\<lparr>c_Sampler := map parse_sampler (samplers model),
                    c_Image := map parse_image (images model)\<rparr>) = Inr st1
      \<and> load_materials (get_components (c_Texture st1)) (materials model)
        (st1\<lparr>c_Sampler := c_Sampler st1 @ [create_default_sampler]\<rparr>) = Inr st3
      \<and> load_meshes to_u32 ByteStride model (get_components (c_PBRMaterial st3))
        (length (c_PBRMaterial st3)) (meshes model) st3 = Some (Inr st4)
      \<and> load_nodes
        (get_components (c_Mesh (load_cameras (cameras model)
           (st4\<lparr>c_PBRMaterial := c_PBRMaterial st4 @ [new_PBRMaterial []]\<rparr>))))
        (nodes model) []
        (load_cameras (cameras model) (st4\<lparr>c_PBRMaterial := c_PBRMaterial st4 @ [new_PBRMaterial []]\<rparr>))
        = Inr (nv, st6)
      \<and> load_scenes (nodes model) (scenes model) nv st6 = Some (Inr (nv1, st7))"
  then show "load_scene to_u32 ByteStride model = Some (Inr (with_default_camera (scene_set_nodes nv1 st7)))"
    using load_scene_from_stages [of model st1 st3 to_u32 ByteStride st4 nv st6 nv1 st7]
    by blast
qed

theorem default_camera_invariant_witness:
  "load_scene Inr declared_stride (graph_document [] []) = Some (Inr (with_default_camera graph_base))
   \<and> c_Camera (with_default_camera graph_base) = [default_camera_at 0]
   \<and> scene_children (with_default_camera graph_base) = [0]
   \<and> (\<exists>sc. load_scene Inr declared_stride
          \<lparr>accessors = [], bufferViews = [], buffers = [], samplers = [], images = [],
           textures = [], materials = [], meshes = [],
           cameras = [\<lparr>camera_name = ''wide'', camera_type = ''perspective'', aspectRatio = 2,
                        yfov = 1 / 2, znear = 1, zfar = 100\<rparr>,
                      \<lparr>camera_name = ''map'', camera_type = ''orthographic'', aspectRatio = 0,
                        yfov = 0, znear = 0, zfar = 0\<rparr>],
           nodes = [], scenes = []\<rparr> = Some (Inr sc)
        \<and> c_Camera sc =
            [\<lparr>sg_camera_name = ''wide'', aspect_ratio = 2, field_of_view = 1 / 2, near_plane = 1,
              far_plane = 100, sg_camera_node = None\<rparr>, default_camera_at 0])"
proof (intro conjI)
  have e: "scene_set_nodes [] graph_base = graph_base"
    by (simp add: scene_set_nodes_def graph_base_def new_Scene_def)
  show "load_scene Inr declared_stride (graph_document [] []) = Some (Inr (with_default_camera graph_base))"
    using default_camera_invariant [of Inr declared_stride "graph_document [] []" _
        "new_Scene" "new_Scene\<lparr>c_Sampler := [create_default_sampler]\<rparr>"
        "new_Scene\<lparr>c_Sampler := [create_default_sampler]\<rparr>" "[]" graph_base "[]" graph_base] e
    by (simp add: graph_document_def graph_base_def new_Scene_def get_components_def)
  show "c_Camera (with_default_camera graph_base) = [default_camera_at 0]"
    by (simp add: with_default_camera_def graph_base_def new_Scene_def)
  show "scene_children (with_default_camera graph_base) = [0]"
    by (simp add: with_default_camera_def graph_base_def new_Scene_def)
next
  let ?wide = "\<lparr>camera_name = ''wide'', camera_type = ''perspective'', aspectRatio = 2,
                        yfov = 1 / 2, znear = 1, zfar = 100\<rparr>"
  let ?map = "\<lparr>camera_name = ''map'', camera_type = ''orthographic'', aspectRatio = 0,
                        yfov = 0, znear = 0, zfar = 0\<rparr>"
  let ?doc = "\<lparr>accessors = [], bufferViews = [], buffers = [], samplers = [], images = [],
           textures = [], materials = [], meshes = [], cameras = [?wide, ?map],
           nodes = [], scenes = []\<rparr>"
  define st5 where "st5 = load_cameras [?wide, ?map] graph_base"
  have r: "load_scene Inr declared_stride ?doc = Some (Inr (with_default_camera (scene_set_nodes [] st5)))"
    unfolding st5_def
    using default_camera_invariant [of Inr declared_stride ?doc _
        "new_Scene" "new_Scene\<lparr>c_Sampler := [create_default_sampler]\<rparr>"
        "new_Scene\<lparr>c_Sampler := [create_default_sampler]\<rparr>" "[]"
        "load_cameras [?wide, ?map] graph_base" "[]" "load_cameras [?wide, ?map] graph_base"]
    by (simp add: graph_base_def new_Scene_def get_components_def)
  have n: "node_store st5 = []"
    by (simp add: st5_def graph_base_def new_Scene_def parse_camera_def add_camera_component_def)
  have k: "c_Camera st5 = [\<lparr>sg_camera_name = ''wide'', aspect_ratio = 2, field_of_view = 1 / 2, near_plane = 1,
              far_plane = 100, sg_camera_node = None\<rparr>]"
    by (simp add: st5_def graph_base_def new_Scene_def parse_camera_def add_camera_component_def)
  have "c_Camera (with_default_camera (scene_set_nodes [] st5)) =
      [\<lparr>sg_camera_name = ''wide'', aspect_ratio = 2, field_of_view = 1 / 2, near_plane = 1,
              far_plane = 100, sg_camera_node = None\<rparr>, default_camera_at 0]"
    by (simp add: with_default_camera_def scene_set_nodes_def n k)
  with r show "\<exists>sc. load_scene Inr declared_stride ?doc = Some (Inr sc)
        \<and> c_Camera sc =
            [\<lparr>sg_camera_name = ''wide'', aspect_ratio = 2, field_of_view = 1 / 2, near_plane = 1,
              far_plane = 100, sg_camera_node = None\<rparr>, default_camera_at 0]"
    by blast
qed

subsection \<open>Texture binding\<close>

lemma add_default_camera_frame:
  "c_Sampler (with_default_camera st) = c_Sampler st \<and> c_Texture (with_default_camera st) = c_Texture st"
  by (simp add: with_default_camera_def)

lemma load_texture_binds:
  assumes "size_t_of_int (texture_source t) < length images_v"
    and "- (2 ^ 31) \<le> texture_sampler t" and "texture_sampler t < 2 ^ 31"
  shows "load_texture images_v (get_components parsed) (length parsed) t st
           = Inr (bind_texture images_v (length parsed) st t)"
proof -
  have len: "length (get_components parsed) = length parsed"
    by (simp add: get_components_def)
  have img: "vec_at images_v (size_t_of_int (texture_source t))
      = Inr (images_v ! size_t_of_int (texture_source t))"
    using assms(1) by (simp add: vec_at_def)
  have s: "0 \<le> texture_sampler t \<Longrightarrow> size_t_of_int (texture_sampler t) = nat (texture_sampler t)"
    using assms(3) by (simp add: size_t_of_int_def)
  have c: "(0 \<le> texture_sampler t \<and> size_t_of_int (texture_sampler t) < length parsed)
      = (0 \<le> texture_sampler t \<and> texture_sampler t < int (length parsed))"
    using s by (cases "0 \<le> texture_sampler t") auto
  show ?thesis
  proof (cases "0 \<le> texture_sampler t \<and> texture_sampler t < int (length parsed)")
    case True
    with c have c': "0 \<le> texture_sampler t \<and> size_t_of_int (texture_sampler t) < length parsed"
      by simp
    from True have lt: "nat (texture_sampler t) < length parsed" by linarith
    have smp: "vec_at (get_components parsed) (size_t_of_int (texture_sampler t))
        = Inr (nat (texture_sampler t))"
      using lt s True by (simp add: vec_at_def get_components_def)
    show ?thesis
      unfolding load_texture_def bind_texture_def Let_def len img
      by (simp only: sum.case c' True if_True smp)
         (simp add: bound_texture_def parse_texture_def)
  next
    case False
    with c have c': "\<not> (0 \<le> texture_sampler t \<and> size_t_of_int (texture_sampler t) < length parsed)"
      by simp
    show ?thesis
      unfolding load_texture_def bind_texture_def Let_def len img
      by (simp only: sum.case c' False if_False)
         (simp add: bound_texture_def parse_texture_def)
  qed
qed

lemma load_textures_binds:
  assumes "\<forall>t \<in> set ts. size_t_of_int (texture_source t) < length images_v
             \<and> - (2 ^ 31) \<le> texture_sampler t \<and> texture_sampler t < 2 ^ 31"
  shows "load_textures images_v (get_components parsed) (length parsed) ts st
           = Inr (foldl (bind_texture images_v (length parsed)) st ts)"
  using assms
proof (induction ts arbitrary: st)
  case Nil
  then show ?case by simp
next
  case (Cons t ts)
  then show ?case by (simp add: load_texture_binds)
qed

text \<open>
  Claim C8: when the image of every texture exists, the loop over the textures returns,
  and it has bound every texture as the specification says: to the sampler of its index
  when the index is at least 0 and below the number of parsed samplers, and otherwise
  to the default sampler, with a warning in the log; no sampler index makes the loop
  fail. In the scene that \<open>load_scene\<close> returns the textures are those of the loop, and
  the samplers are the parsed ones followed by the default sampler, which so has the
  position that the fallback refers to.
\<close>

theorem texture_sampler_binding:
  "((\<forall>t \<in> set ts. size_t_of_int (texture_source t) < length images_v
        \<and> - (2 ^ 31) \<le> texture_sampler t \<and> texture_sampler t < 2 ^ 31) \<longrightarrow>
      load_textures images_v (get_components parsed) (length parsed) ts st
        = Inr (foldl (bind_texture images_v (length parsed)) st ts))
   \<and> (load_scene to_u32 ByteStride model = Some (Inr sc) \<longrightarrow>
        c_Sampler sc = map parse_sampler (samplers model) @ [create_default_sampler]
        \<and> (\<exists>st1. load_textures (get_components (map parse_image (images model)))
                    (get_components (map parse_sampler (samplers model))) (length (samplers model))
                    (textures model)
                    (new_Scene\<lparr>c_Sampler := map parse_sampler (samplers model),
                                c_Image := map parse_image (images model)\<rparr>) = Inr st1
              \<and> c_Texture sc = c_Texture st1))"
proof (intro conjI impI)
  assume "\<forall>t \<in> set ts. size_t_of_int (texture_source t) < length images_v
        \<and> - (2 ^ 31) \<le> texture_sampler t \<and> texture_sampler t < 2 ^ 31"
  from load_textures_binds [OF this]
  show "load_textures images_v (get_components parsed) (length parsed) ts st
        = Inr (foldl (bind_texture images_v (length parsed)) st ts)" .
next
  assume r: "load_scene to_u32 ByteStride model = Some (Inr sc)"
  from load_scene_stages [OF r] obtain st1 st3 st4 nv st6 nv1 st7 where
    1: "load_textures (get_components (map parse_image (images model)))
        (get_components (map parse_sampler (samplers model))) (length (samplers model))
        (textures model)
        (new_Scene\<lparr>c_Sampler := map parse_sampler (samplers model),
                    c_Image := map parse_image (images model)\<rparr>) = Inr st1"
    and 3: "load_materials (get_components (c_Texture st1)) (materials model)
        (st1\<lparr>c_Sampler := c_Sampler st1 @ [create_default_sampler]\<rparr>) = Inr st3"
    and 4: "load_meshes to_u32 ByteStride model (get_components (c_PBRMaterial st3))
        (length (c_PBRMaterial st3)) (meshes model) st3 = Some (Inr st4)"
    and 6: "load_nodes
        (get_components (c_Mesh (load_cameras (cameras model) (st4\<lparr>c_PBRMaterial := c_PBRMaterial st4 @ [new_PBRMaterial []]\<rparr>))))
        (nodes model) []
        (load_cameras (cameras model) (st4\<lparr>c_PBRMaterial := c_PBRMaterial st4 @ [new_PBRMaterial []]\<rparr>))
      = Inr (nv, st6)"
    and 7: "load_scenes (nodes model) (scenes model) nv st6 = Some (Inr (nv1, st7))"
    and 8: "add_default_camera (scene_set_nodes nv1 st7) = Inr sc"
    by blast
  have s1: "c_Sampler st1 = map parse_sampler (samplers model)"
    using load_textures_frame [OF 1] by simp
  have s3: "c_Sampler st3 = c_Sampler st1 @ [create_default_sampler] \<and> c_Texture st3 = c_Texture st1"
    using load_materials_frame [OF 3] by simp
  have s4: "c_Sampler st4 = c_Sampler st3 \<and> c_Texture st4 = c_Texture st3"
    using load_meshes_frame [OF 4] by simp
  have s5: "c_Sampler (load_cameras (cameras model) (st4\<lparr>c_PBRMaterial := c_PBRMaterial st4 @ [new_PBRMaterial []]\<rparr>))
        = c_Sampler st4
      \<and> c_Texture (load_cameras (cameras model) (st4\<lparr>c_PBRMaterial := c_PBRMaterial st4 @ [new_PBRMaterial []]\<rparr>))
        = c_Texture st4"
    using load_cameras_frame [of "cameras model" "st4\<lparr>c_PBRMaterial := c_PBRMaterial st4 @ [new_PBRMaterial []]\<rparr>"]
    by simp
  have s6: "c_Sampler st6 = c_Sampler st4 \<and> c_Texture st6 = c_Texture st4"
    using load_nodes_frame [OF 6] s5 by simp
  have s7: "c_Sampler st7 = c_Sampler st6 \<and> c_Texture st7 = c_Texture st6"
    using load_scenes_frame [OF 7] by simp
  from 8 have sc: "sc = with_default_camera (scene_set_nodes nv1 st7)"
    by (simp add: add_default_camera_total)
  have f: "c_Sampler sc = c_Sampler st7 \<and> c_Texture sc = c_Texture st7"
    unfolding sc by (simp add: with_default_camera_def scene_set_nodes_def)
  from f s7 s6 s4 s3 s1 show "c_Sampler sc = map parse_sampler (samplers model) @ [create_default_sampler]"
    by simp
  from f s7 s6 s4 s3 1 show "\<exists>st1. load_textures (get_components (map parse_image (images model)))
                    (get_components (map parse_sampler (samplers model))) (length (samplers model))
                    (textures model)
                    (new_Scene\<lparr>c_Sampler := map parse_sampler (samplers model),
                                c_Image := map parse_image (images model)\<rparr>) = Inr st1
              \<and> c_Texture sc = c_Texture st1"
    by simp
qed

theorem texture_sampler_binding_witness:
  "load_textures [0] (get_components [create_default_sampler]) 1
     [\<lparr>texture_name = ''a'', texture_sampler = 0, texture_source = 0\<rparr>,
      \<lparr>texture_name = ''b'', texture_sampler = - 1, texture_source = 0\<rparr>,
      \<lparr>texture_name = ''c'', texture_sampler = 5, texture_source = 0\<rparr>] new_Scene
   = Inr (new_Scene
       \<lparr>messages := [(LOGW, ''Sampler not found for texture b, possible GLTF error''),
                      (LOGW, ''Sampler not found for texture c, possible GLTF error'')],
        c_Texture :=
          [\<lparr>sg_texture_name = ''a'', sg_texture_image = Some 0, sg_texture_sampler = Some 0\<rparr>,
           \<lparr>sg_texture_name = ''b'', sg_texture_image = Some 0, sg_texture_sampler = Some 1\<rparr>,
           \<lparr>sg_texture_name = ''c'', sg_texture_image = Some 0, sg_texture_sampler = Some 1\<rparr>]\<rparr>)
   \<and> (\<exists>sc. load_scene Inr declared_stride
          (texture_document
             [\<lparr>sampler_name = ''s'', minFilter = 0, magFilter = 0, wrapS = 0, wrapT = 0, wrapR = 0\<rparr>]
             [\<lparr>image_name = ''i''\<rparr>]
             [\<lparr>texture_name = ''a'', texture_sampler = 0, texture_source = 0\<rparr>,
              \<lparr>texture_name = ''b'', texture_sampler = - 1, texture_source = 0\<rparr>,
              \<lparr>texture_name = ''c'', texture_sampler = 5, texture_source = 0\<rparr>]) = Some (Inr sc)
        \<and> c_Sampler sc =
            [parse_sampler \<lparr>sampler_name = ''s'', minFilter = 0, magFilter = 0, wrapS = 0, wrapT = 0, wrapR = 0\<rparr>,
             create_default_sampler]
        \<and> map sg_texture_sampler (c_Texture sc) = [Some 0, Some 1, Some 1])"
proof
  let ?ts = "[\<lparr>texture_name = ''a'', texture_sampler = 0, texture_source = 0\<rparr>,
      \<lparr>texture_name = ''b'', texture_sampler = - 1, texture_source = 0\<rparr>,
      \<lparr>texture_name = ''c'', texture_sampler = 5, texture_source = 0\<rparr>]"
  show "load_textures [0] (get_components [create_default_sampler]) 1 ?ts new_Scene
   = Inr (new_Scene
       \<lparr>messages := [(LOGW, ''Sampler not found for texture b, possible GLTF error''),
                      (LOGW, ''Sampler not found for texture c, possible GLTF error'')],
        c_Texture :=
          [\<lparr>sg_texture_name = ''a'', sg_texture_image = Some 0, sg_texture_sampler = Some 0\<rparr>,
           \<lparr>sg_texture_name = ''b'', sg_texture_image = Some 0, sg_texture_sampler = Some 1\<rparr>,
           \<lparr>sg_texture_name = ''c'', sg_texture_image = Some 0, sg_texture_sampler = Some 1\<rparr>]\<rparr>)"
    using texture_sampler_binding [of ?ts "[0]" "[create_default_sampler]" new_Scene]
    by (simp add: bind_texture_def bound_texture_def new_Scene_def)
next
  let ?ts = "[\<lparr>texture_name = ''a'', texture_sampler = 0, texture_source = 0\<rparr>,
      \<lparr>texture_name = ''b'', texture_sampler = - 1, texture_source = 0\<rparr>,
      \<lparr>texture_name = ''c'', texture_sampler = 5, texture_source = 0\<rparr>]"
  let ?smp = "\<lparr>sampler_name = ''s'', minFilter = 0, magFilter = 0, wrapS = 0, wrapT = 0, wrapR = 0\<rparr>"
  let ?doc = "texture_document [?smp] [\<lparr>image_name = ''i''\<rparr>] ?ts"
  define st0 where "st0 = new_Scene\<lparr>c_Sampler := map parse_sampler (samplers ?doc),
                    c_Image := map parse_image (images ?doc)\<rparr>"
  define st1 where "st1 = foldl (bind_texture (get_components (map parse_image (images ?doc)))
                                   (length (map parse_sampler (samplers ?doc)))) st0 ?ts"
  have t: "textures ?doc = ?ts" and l: "length (samplers ?doc) = length (map parse_sampler (samplers ?doc))"
    and m: "materials ?doc = []" "meshes ?doc = []" "cameras ?doc = []" "nodes ?doc = []" "scenes ?doc = []"
    by (simp_all add: texture_document_def)
  have L: "load_textures (get_components (map parse_image (images ?doc)))
        (get_components (map parse_sampler (samplers ?doc))) (length (samplers ?doc))
        (textures ?doc) st0 = Inr st1"
    unfolding t l st1_def
    using texture_sampler_binding [of ?ts "get_components (map parse_image (images ?doc))"
        "map parse_sampler (samplers ?doc)" st0]
    by (simp add: texture_document_def get_components_def)
  define st3 where "st3 = st1\<lparr>c_Sampler := c_Sampler st1 @ [create_default_sampler]\<rparr>"
  define st5 where "st5 = st3\<lparr>c_PBRMaterial := c_PBRMaterial st3 @ [new_PBRMaterial []]\<rparr>"
  have r: "load_scene Inr declared_stride ?doc = Some (Inr (with_default_camera (scene_set_nodes [] st5)))"
    by (rule load_scene_from_stages [where ?st1.0 = st1 and ?st3.0 = st3 and ?st4.0 = st3
          and nv = "[]" and ?st6.0 = st5])
       (simp_all only: L [unfolded st0_def] m st3_def st5_def load_materials.simps load_meshes.simps
          load_cameras.simps load_nodes.simps load_scenes.simps)
  from texture_sampler_binding [of _ _ _ _ Inr declared_stride ?doc
      "with_default_camera (scene_set_nodes [] st5)"] r
  obtain st1' where s: "c_Sampler (with_default_camera (scene_set_nodes [] st5))
        = map parse_sampler (samplers ?doc) @ [create_default_sampler]"
    and L': "load_textures (get_components (map parse_image (images ?doc)))
        (get_components (map parse_sampler (samplers ?doc))) (length (samplers ?doc))
        (textures ?doc) st0 = Inr st1'"
    and c: "c_Texture (with_default_camera (scene_set_nodes [] st5)) = c_Texture st1'"
    unfolding st0_def by blast
  from L L' have "st1' = st1" by simp
  with c have a: "map sg_texture_sampler (c_Texture (with_default_camera (scene_set_nodes [] st5)))
      = [Some 0, Some 1, Some 1]"
    by (simp add: st1_def st0_def bind_texture_def bound_texture_def texture_document_def new_Scene_def)
  from s have b: "c_Sampler (with_default_camera (scene_set_nodes [] st5))
      = [parse_sampler ?smp, create_default_sampler]"
    by (simp add: texture_document_def)
  show "\<exists>sc. load_scene Inr declared_stride ?doc = Some (Inr sc)
        \<and> c_Sampler sc = [parse_sampler ?smp, create_default_sampler]
        \<and> map sg_texture_sampler (c_Texture sc) = [Some 0, Some 1, Some 1]"
    by (rule exI [of _ "with_default_camera (scene_set_nodes [] st5)"], intro conjI, rule r, rule b, rule a)
qed

subsection \<open>Material texture slots\<close>

lemma string_find_iff: "string_find s pat \<noteq> None \<longleftrightarrow> (\<exists>a b. s = a @ pat @ b)"
proof (induction s)
  case Nil
  show ?case by auto
next
  case (Cons c cs)
  show ?case
  proof (cases "take (length pat) (c # cs) = pat")
    case True
    then have "c # cs = [] @ pat @ drop (length pat) (c # cs)"
      by (metis append_Nil append_take_drop_id)
    then have "\<exists>a b. c # cs = a @ pat @ b" by blast
    with True show ?thesis by simp
  next
    case False
    have "(\<exists>a b. c # cs = a @ pat @ b) \<longleftrightarrow> (\<exists>a b. cs = a @ pat @ b)"
    proof
      assume "\<exists>a b. c # cs = a @ pat @ b"
      then obtain a b where ab: "c # cs = a @ pat @ b" by blast
      show "\<exists>a b. cs = a @ pat @ b"
      proof (cases a)
        case Nil
        with ab have "take (length pat) (c # cs) = pat" by simp
        with False show ?thesis by simp
      next
        case (Cons x a')
        with ab have "cs = a' @ pat @ b" by simp
        then show ?thesis by blast
      qed
    next
      assume "\<exists>a b. cs = a @ pat @ b"
      then obtain a b where "cs = a @ pat @ b" by blast
      then have "c # cs = (c # a) @ pat @ b" by simp
      then show "\<exists>a b. c # cs = a @ pat @ b" by blast
    qed
    with False Cons.IH show ?thesis by simp
  qed
qed

lemma parse_material_values_textures:
  "sg_material_textures (parse_material_values kvs m) = sg_material_textures m"
  by (induction kvs arbitrary: m) simp_all

lemma parse_material_additional_textures:
  "parse_material_additional kvs m = Inr m' \<Longrightarrow> sg_material_textures m' = sg_material_textures m"
proof (induction kvs arbitrary: m)
  case Nil
  then show ?case by simp
next
  case (Cons kv kvs)
  from Cons.prems obtain m1 where
    "parse_material_additional kvs m1 = Inr m'" and "sg_material_textures m1 = sg_material_textures m"
    by (auto split: if_splits list.splits)
  with Cons.IH show ?case by metis
qed

lemma parse_material_textures:
  "parse_material gm = Inr m \<Longrightarrow> sg_material_textures m = Map.empty"
  using parse_material_additional_textures [of "additionalValues gm" _ m]
  by (simp add: parse_material_def parse_material_values_textures new_PBRMaterial_def)

lemma bind_textures_slots:
  assumes "\<forall>kv \<in> set kvs. string_find (fst kv) ''Texture'' \<noteq> None \<longrightarrow>
             size_t_of_int (TextureIndex (snd kv)) < length textures_v"
  shows "bind_textures textures_v kvs m
    = Inr (m\<lparr>sg_material_textures := sg_material_textures m ++ map_of (rev (texture_slots textures_v kvs))\<rparr>)"
  using assms
proof (induction kvs arbitrary: m)
  case Nil
  then show ?case by (simp add: texture_slots_def)
next
  case (Cons kv kvs)
  show ?case
  proof (cases "string_find (fst kv) ''Texture'' \<noteq> None")
    case True
    with Cons.prems have v: "vec_at textures_v (size_t_of_int (TextureIndex (snd kv)))
        = Inr (textures_v ! size_t_of_int (TextureIndex (snd kv)))"
      by (simp add: vec_at_def)
    let ?m1 = "m\<lparr>sg_material_textures := (sg_material_textures m)
        (to_snake_case (fst kv) \<mapsto> textures_v ! size_t_of_int (TextureIndex (snd kv)))\<rparr>"
    have step: "bind_textures textures_v (kv # kvs) m = bind_textures textures_v kvs ?m1"
      using True v by (simp add: Let_def)
    have s: "texture_slots textures_v (kv # kvs)
        = (to_snake_case (fst kv), textures_v ! size_t_of_int (TextureIndex (snd kv)))
            # texture_slots textures_v kvs"
      using True by (simp add: texture_slots_def)
    have eq: "(sg_material_textures m)
          (to_snake_case (fst kv) \<mapsto> textures_v ! size_t_of_int (TextureIndex (snd kv)))
          ++ map_of (rev (texture_slots textures_v kvs))
        = sg_material_textures m ++ map_of (rev (texture_slots textures_v (kv # kvs)))"
      unfolding s by (rule ext) (auto simp: map_add_def map_of_append split: option.splits)
    have p: "\<forall>kv \<in> set kvs. string_find (fst kv) ''Texture'' \<noteq> None \<longrightarrow>
             size_t_of_int (TextureIndex (snd kv)) < length textures_v"
      using Cons.prems by simp
    have tx: "sg_material_textures ?m1 = (sg_material_textures m)
          (to_snake_case (fst kv) \<mapsto> textures_v ! size_t_of_int (TextureIndex (snd kv)))"
      by simp
    have e: "?m1\<lparr>sg_material_textures := X\<rparr> = m\<lparr>sg_material_textures := X\<rparr>" for X
      by simp
    from Cons.IH [OF p, of ?m1] show ?thesis
      by (simp only: step tx e eq)
  next
    case False
    then have step: "bind_textures textures_v (kv # kvs) m = bind_textures textures_v kvs m"
      by simp
    have s: "texture_slots textures_v (kv # kvs) = texture_slots textures_v kvs"
      using False by (simp add: texture_slots_def)
    have p: "\<forall>kv \<in> set kvs. string_find (fst kv) ''Texture'' \<noteq> None \<longrightarrow>
             size_t_of_int (TextureIndex (snd kv)) < length textures_v"
      using Cons.prems by simp
    from Cons.IH [OF p, of m] show ?thesis
      by (simp only: step s)
  qed
qed

lemma texture_slots_append:
  "texture_slots textures_v (xs @ ys) = texture_slots textures_v xs @ texture_slots textures_v ys"
  by (simp add: texture_slots_def)

lemma texture_slots_names:
  "fst ` set (texture_slots textures_v kvs)
     = to_snake_case ` {k \<in> fst ` set kvs. \<exists>a b. k = a @ ''Texture'' @ b}"
  unfolding texture_slots_def string_find_iff [symmetric]
  by (force simp: image_iff)

text \<open>
  Claim C9: when the texture index of every key in which \<open>Texture\<close> occurs is the index
  of a texture, the binding of a material returns the material that \<open>parse_material\<close>
  built with exactly these texture slots: one slot for every such key of the core values
  and of the additional values, under the canonical name of the key, and no slot for
  any other key. The key \<open>diffuseTexture\<close> gives the slot name \<open>diffuse_texture\<close>. The
  material is then stored in the scene and the loop continues.
\<close>

theorem material_texture_slots:
  assumes "parse_material gm = Inr m0"
    and "\<forall>kv \<in> set (material_values gm @ additionalValues gm).
           (\<exists>a b. fst kv = a @ ''Texture'' @ b) \<longrightarrow>
             size_t_of_int (TextureIndex (snd kv)) < length textures_v"
    and "slots = map_of (rev (texture_slots textures_v (material_values gm @ additionalValues gm)))"
  shows "load_material textures_v gm = Inr (m0\<lparr>sg_material_textures := slots\<rparr>)
       \<and> dom slots = to_snake_case `
             {k \<in> fst ` set (material_values gm @ additionalValues gm). \<exists>a b. k = a @ ''Texture'' @ b}
       \<and> to_snake_case ''diffuseTexture'' = ''diffuse_texture''
       \<and> load_materials textures_v (gm # rest) st
           = load_materials textures_v rest
               (st\<lparr>c_PBRMaterial := c_PBRMaterial st @ [m0\<lparr>sg_material_textures := slots\<rparr>]\<rparr>)"
proof -
  have v: "\<forall>kv \<in> set (material_values gm). string_find (fst kv) ''Texture'' \<noteq> None \<longrightarrow>
             size_t_of_int (TextureIndex (snd kv)) < length textures_v"
    and a: "\<forall>kv \<in> set (additionalValues gm). string_find (fst kv) ''Texture'' \<noteq> None \<longrightarrow>
             size_t_of_int (TextureIndex (snd kv)) < length textures_v"
    using assms(2) unfolding string_find_iff by simp_all
  let ?m1 = "m0\<lparr>sg_material_textures :=
      sg_material_textures m0 ++ map_of (rev (texture_slots textures_v (material_values gm)))\<rparr>"
  have b1: "bind_textures textures_v (material_values gm) m0 = Inr ?m1"
    using bind_textures_slots [OF v] .
  have b2: "bind_textures textures_v (additionalValues gm) ?m1
      = Inr (?m1\<lparr>sg_material_textures :=
          sg_material_textures ?m1 ++ map_of (rev (texture_slots textures_v (additionalValues gm)))\<rparr>)"
    using bind_textures_slots [OF a] .
  have e: "sg_material_textures m0 = Map.empty"
    using parse_material_textures [OF assms(1)] .
  have sl: "slots = map_of (rev (texture_slots textures_v (material_values gm)))
      ++ map_of (rev (texture_slots textures_v (additionalValues gm)))"
    unfolding assms(3) by (simp add: texture_slots_append map_of_append)
  have lm: "load_material textures_v gm = Inr (m0\<lparr>sg_material_textures := slots\<rparr>)"
    unfolding load_material_def
    by (simp only: assms(1) sum.case b1 b2) (simp add: e sl)
  have d: "dom slots = to_snake_case `
      {k \<in> fst ` set (material_values gm @ additionalValues gm). \<exists>a b. k = a @ ''Texture'' @ b}"
    unfolding assms(3)
    by (simp only: dom_map_of_conv_image_fst set_rev texture_slots_names)
  have n: "to_snake_case ''diffuseTexture'' = ''diffuse_texture''"
    by (simp add: isupper_def tolower_def)
  have ls: "load_materials textures_v (gm # rest) st
           = load_materials textures_v rest
               (st\<lparr>c_PBRMaterial := c_PBRMaterial st @ [m0\<lparr>sg_material_textures := slots\<rparr>]\<rparr>)"
    by (simp add: lm)
  from lm d n ls show ?thesis by blast
qed

theorem material_texture_slots_witness:
  "\<exists>m. load_material [0, 1]
          \<lparr>material_name = ''m'',
           material_values = [(''baseColorTexture'', texture_parameter 0),
                              (''metallicFactor'', texture_parameter (- 1))],
           additionalValues = [(''normalTexture'', texture_parameter 1),
                               (''doubleSided'', texture_parameter (- 1))]\<rparr> = Inr m
      \<and> sg_material_textures m ''base_color_texture'' = Some 0
      \<and> sg_material_textures m ''normal_texture'' = Some 1
      \<and> sg_material_textures m ''metallic_factor'' = None
      \<and> sg_material_textures m ''double_sided'' = None"
proof -
  let ?gm = "\<lparr>material_name = ''m'',
           material_values = [(''baseColorTexture'', texture_parameter 0),
                              (''metallicFactor'', texture_parameter (- 1))],
           additionalValues = [(''normalTexture'', texture_parameter 1),
                               (''doubleSided'', texture_parameter (- 1))]\<rparr>"
  define m0 where "m0 = (new_PBRMaterial ''m'')\<lparr>metallic_factor := Some 0, double_sided := Some False\<rparr>"
  define slots where "slots = map_of (rev (texture_slots [0, 1] (material_values ?gm @ additionalValues ?gm)))"
  have p: "parse_material ?gm = Inr m0"
    by (simp add: parse_material_def m0_def texture_parameter_def)
  have f: "string_find ''baseColorTexture'' ''Texture'' \<noteq> None"
      "string_find ''normalTexture'' ''Texture'' \<noteq> None"
      "string_find ''metallicFactor'' ''Texture'' = None"
      "string_find ''doubleSided'' ''Texture'' = None"
    by simp_all
  have v: "\<forall>kv \<in> set (material_values ?gm @ additionalValues ?gm).
           (\<exists>a b. fst kv = a @ ''Texture'' @ b) \<longrightarrow>
             size_t_of_int (TextureIndex (snd kv)) < length [0 :: nat, 1]"
    unfolding string_find_iff [symmetric]
    using f by (simp add: texture_parameter_def)
  from material_texture_slots [OF p v slots_def]
  have r: "load_material [0, 1] ?gm = Inr (m0\<lparr>sg_material_textures := slots\<rparr>)" by blast
  have s: "slots ''base_color_texture'' = Some 0" "slots ''normal_texture'' = Some 1"
      "slots ''metallic_factor'' = None" "slots ''double_sided'' = None"
    unfolding slots_def
    using f by (simp_all add: texture_slots_def texture_parameter_def isupper_def tolower_def)
  show ?thesis
    by (rule exI [of _ "m0\<lparr>sg_material_textures := slots\<rparr>"]) (use r s in simp)
qed

end
